theory Spec2Isabelle
  imports Complex_Main "HOL-Library.AList" "HOL-Library.Log_Nat"
begin

section \<open>CTRF insights: report model\<close>

text \<open>
  The development follows the standalone insights module (the one with
  \<^verbatim>\<open>consolidateTestMetricsToRunMetrics\<close> and the baseline functions), its older
  sibling \<^verbatim>\<open>src/ctrf/insights.ts\<close>, and the previous-runs extractor.

  Numbers. A JavaScript number is a binary64 double. A finite one is modelled by the
  rational it denotes, and every arithmetic operation rounds its exact result to the
  nearest double (\<open>fl64\<close> below), so that the counters of the model are the doubles the
  program computes, infinities and not-a-number included. Signed zeros are not
  distinguished. The retries and durations read from a report are rationals (the values
  of the doubles read); summary counts and epoch timestamps are integers, on which the
  program only subtracts and compares.
\<close>

datatype number = Finite rat | NaN | PosInfinity | NegInfinity

datatype CtrfTestState = Passed | Failed | Skipped | Pending | Other

text \<open>
  Of \<^verbatim>\<open>CtrfTest\<close> the fields the program reads. An optional field that is absent
  (\<^verbatim>\<open>undefined\<close>) is \<open>None\<close>.
\<close>

record CtrfTest =
  name :: string
  status :: CtrfTestState
  duration :: rat
  retries :: "rat option"
  flaky :: "bool option"

record Summary =
  summaryTests :: int
  summaryPassed :: int
  summaryFailed :: int
  summarySkipped :: int
  summaryPending :: int
  summaryOther :: int
  start :: int
  stop :: int

record CtrfEnvironment =
  buildNumber :: "string option"
  buildUrl :: "string option"

text \<open>
  The declared type of \<^verbatim>\<open>results.tests\<close> is an array, but the program checks it at run
  time (\<^verbatim>\<open>validateReportForInsights\<close>): the field may be missing, or hold something
  that is not an array.
\<close>

datatype TestsField = TestsMissing | TestsNotArray | TestsArray "CtrfTest list"

record Results =
  summary :: Summary
  tests :: TestsField
  environment :: "CtrfEnvironment option"

record InsightsMetric =
  current :: number
  previous :: number
  change :: number

record Insights =
  flakyRate :: InsightsMetric
  failRate :: InsightsMetric
  skippedRate :: InsightsMetric
  averageTestDuration :: InsightsMetric
  averageRunDuration :: InsightsMetric
  insightsReportsAnalyzed :: rat
  extra :: "(string \<times> number) list option"

text \<open>\<^verbatim>\<open>report?.results\<close>: the results object itself may be missing at run time.\<close>

record CtrfReport =
  results :: "Results option"
  insights :: "Insights option"

section \<open>Number operations\<close>

text \<open>
  Rounding to binary64. For \<open>a > 0\<close>, \<open>exponentOf a\<close> is the exponent \<open>e\<close> with
  \<open>2\<^sup>e \<le> a < 2\<^sup>e\<^sup>+\<^sup>1\<close>, found from the bit lengths of numerator and denominator. A
  double near \<open>a\<close> is a multiple of \<open>2\<^sup>q\<close> with \<open>q = e - 52\<close>, and \<open>q = -1074\<close> in the
  subnormal range; \<open>fl64\<close> takes the nearest multiple, the even one on a tie, and
  overflows to an infinity from \<open>2\<^sup>1\<^sup>0\<^sup>2\<^sup>4\<close> on.
\<close>

definition exponentOf :: "rat \<Rightarrow> int" where
  "exponentOf a =
     (let k = bitlen (fst (quotient_of a)) - bitlen (snd (quotient_of a))
      in if power_int 2 k \<le> a then k else k - 1)"

definition roundHalfEven :: "rat \<Rightarrow> int" where
  "roundHalfEven m =
     (let f = \<lfloor>m\<rfloor>; d = m - of_int f
      in if d < 1 / 2 then f else if 1 / 2 < d then f + 1
         else if even f then f else f + 1)"

definition fl64 :: "rat \<Rightarrow> number" where
  "fl64 x =
     (if x = 0 then Finite 0
      else
        (let a = \<bar>x\<bar>;
             q = max (exponentOf a - 52) (- 1074);
             r = of_int (roundHalfEven (a / power_int 2 q)) * power_int 2 q
         in if power_int 2 1024 \<le> r then (if 0 < x then PosInfinity else NegInfinity)
            else Finite (if 0 < x then r else - r)))"

text \<open>\<^verbatim>\<open>x + y\<close>.\<close>

fun js_plus :: "number \<Rightarrow> number \<Rightarrow> number" where
  "js_plus (Finite a) (Finite b) = fl64 (a + b)"
| "js_plus NaN y = NaN"
| "js_plus x NaN = NaN"
| "js_plus PosInfinity NegInfinity = NaN"
| "js_plus NegInfinity PosInfinity = NaN"
| "js_plus PosInfinity y = PosInfinity"
| "js_plus NegInfinity y = NegInfinity"
| "js_plus (Finite a) PosInfinity = PosInfinity"
| "js_plus (Finite a) NegInfinity = NegInfinity"

text \<open>\<^verbatim>\<open>x - y\<close>.\<close>

fun js_minus :: "number \<Rightarrow> number \<Rightarrow> number" where
  "js_minus (Finite a) (Finite b) = fl64 (a - b)"
| "js_minus NaN y = NaN"
| "js_minus x NaN = NaN"
| "js_minus PosInfinity PosInfinity = NaN"
| "js_minus NegInfinity NegInfinity = NaN"
| "js_minus PosInfinity y = PosInfinity"
| "js_minus NegInfinity y = NegInfinity"
| "js_minus (Finite a) PosInfinity = NegInfinity"
| "js_minus (Finite a) NegInfinity = PosInfinity"

text \<open>\<^verbatim>\<open>x * y\<close>: an infinity times zero is not a number.\<close>

fun js_times :: "number \<Rightarrow> number \<Rightarrow> number" where
  "js_times (Finite a) (Finite b) = fl64 (a * b)"
| "js_times NaN y = NaN"
| "js_times x NaN = NaN"
| "js_times PosInfinity (Finite b) =
     (if b = 0 then NaN else if 0 < b then PosInfinity else NegInfinity)"
| "js_times NegInfinity (Finite b) =
     (if b = 0 then NaN else if 0 < b then NegInfinity else PosInfinity)"
| "js_times (Finite a) PosInfinity =
     (if a = 0 then NaN else if 0 < a then PosInfinity else NegInfinity)"
| "js_times (Finite a) NegInfinity =
     (if a = 0 then NaN else if 0 < a then NegInfinity else PosInfinity)"
| "js_times PosInfinity PosInfinity = PosInfinity"
| "js_times NegInfinity NegInfinity = PosInfinity"
| "js_times PosInfinity NegInfinity = NegInfinity"
| "js_times NegInfinity PosInfinity = NegInfinity"

text \<open>
  \<^verbatim>\<open>x / y\<close>: zero over zero and an infinity over an infinity are not numbers, a finite
  number over an infinity is zero.
\<close>

fun js_divide :: "number \<Rightarrow> number \<Rightarrow> number" where
  "js_divide (Finite a) (Finite b) =
     (if b = 0 then (if a = 0 then NaN else if 0 < a then PosInfinity else NegInfinity)
      else fl64 (a / b))"
| "js_divide NaN y = NaN"
| "js_divide x NaN = NaN"
| "js_divide PosInfinity (Finite b) = (if b < 0 then NegInfinity else PosInfinity)"
| "js_divide NegInfinity (Finite b) = (if b < 0 then PosInfinity else NegInfinity)"
| "js_divide (Finite a) PosInfinity = Finite 0"
| "js_divide (Finite a) NegInfinity = Finite 0"
| "js_divide PosInfinity PosInfinity = NaN"
| "js_divide PosInfinity NegInfinity = NaN"
| "js_divide NegInfinity PosInfinity = NaN"
| "js_divide NegInfinity NegInfinity = NaN"

text \<open>
  \<^verbatim>\<open>Number(x.toFixed(2))\<close>. \<^verbatim>\<open>toFixed\<close> works on the magnitude of the exact value of
  the double and picks the integer \<open>n\<close> with \<open>n / 100\<close> nearest to it, the larger one on
  a tie: half away from zero. \<^verbatim>\<open>Number\<close> reads the decimal back as the nearest double.
  (From \<open>10\<^sup>2\<^sup>1\<close> on \<^verbatim>\<open>toFixed\<close> prints the number as it is; a double of that size
  is an integer, which \<open>round2\<close> and \<open>fl64\<close> leave as it is too.) The non-finite values
  print as their names and read back unchanged.
\<close>

definition round2 :: "rat \<Rightarrow> rat" where
  "round2 x =
     (if x < 0 then - (of_int \<lfloor>- x * 100 + 1 / 2\<rfloor> / 100)
      else of_int \<lfloor>x * 100 + 1 / 2\<rfloor> / 100)"

fun toFixed2 :: "number \<Rightarrow> number" where
  "toFixed2 (Finite x) = fl64 (round2 x)"
| "toFixed2 NaN = NaN"
| "toFixed2 PosInfinity = PosInfinity"
| "toFixed2 NegInfinity = NegInfinity"

text \<open>\<^verbatim>\<open>x || 0\<close> on an optional number: \<^verbatim>\<open>undefined\<close> and \<open>0\<close> are falsy.\<close>

definition orZero :: "rat option \<Rightarrow> rat" where
  "orZero x = (case x of None \<Rightarrow> 0 | Some r \<Rightarrow> if r = 0 then 0 else r)"

text \<open>
  What the words of the specification mean by a value rounded to two decimals: \<open>r\<close> is a
  whole number of hundredths, none is nearer to \<open>d\<close>, and of two equally near ones it is
  the one farther from zero.
\<close>

definition roundedTo2Decimals :: "rat \<Rightarrow> rat \<Rightarrow> bool" where
  "roundedTo2Decimals d r \<longleftrightarrow>
     r * 100 = of_int \<lfloor>r * 100\<rfloor> \<and> \<bar>r - d\<bar> \<le> 1 / 200 \<and> (\<bar>r - d\<bar> < 1 / 200 \<or> \<bar>d\<bar> < \<bar>r\<bar>)"

section \<open>Flakiness predicate\<close>

text \<open>
  \<^verbatim>\<open>test.flaky || (test.retries && test.retries > 0 && test.status === 'passed') || false\<close>.
  The first operand is truthy only for \<^verbatim>\<open>true\<close>; \<^verbatim>\<open>test.retries\<close> is falsy when
  absent or 0.
\<close>

definition isTestFlaky :: "CtrfTest \<Rightarrow> bool" where
  "isTestFlaky test =
     (if flaky test = Some True then True
      else (case retries test of
              None \<Rightarrow> False
            | Some r \<Rightarrow> if r = 0 then False else (0 < r \<and> status test = Passed)))"

section \<open>Per-test metrics aggregation\<close>

text \<open>\<^verbatim>\<open>!!(report?.results?.tests && Array.isArray(report.results.tests))\<close>\<close>

definition validateReportForInsights :: "CtrfReport \<Rightarrow> bool" where
  "validateReportForInsights report =
     (case results report of
        None \<Rightarrow> False
      | Some res \<Rightarrow> (case tests res of TestsArray ts \<Rightarrow> True | _ \<Rightarrow> False))"

record AggregatedRunMetrics =
  totalAttempts :: number
  totalAttemptsFailed :: number
  totalResults :: number
  totalResultsFailed :: number
  totalResultsPassed :: number
  totalResultsSkipped :: number
  totalResultsFlaky :: number
  totalResultsDuration :: number
  reportsAnalyzed :: number

record AggregatedTestMetrics = AggregatedRunMetrics +
  appearsInRuns :: number

text \<open>
  The \<^verbatim>\<open>Map<string, AggregatedTestMetrics>\<close> is an association list in insertion
  order; \<open>AList.update\<close> replaces the value of a key in place and appends a new key,
  as \<^verbatim>\<open>Map.set\<close> does.
\<close>

type_synonym MetricsMap = "(string \<times> AggregatedTestMetrics) list"

definition emptyMetrics :: AggregatedTestMetrics where
  "emptyMetrics =
     \<lparr>totalAttempts = Finite 0, totalAttemptsFailed = Finite 0, totalResults = Finite 0,
      totalResultsFailed = Finite 0, totalResultsPassed = Finite 0,
      totalResultsSkipped = Finite 0, totalResultsFlaky = Finite 0,
      totalResultsDuration = Finite 0, reportsAnalyzed = Finite 0,
      appearsInRuns = Finite 0\<rparr>"

text \<open>The updates of one test's entry, in the order of the loop body.\<close>

definition tallyTest :: "CtrfTest \<Rightarrow> AggregatedTestMetrics \<Rightarrow> AggregatedTestMetrics" where
  "tallyTest test metrics =
     (let r = Finite (orZero (retries test));
          m1 = metrics\<lparr>totalResults := js_plus (totalResults metrics) (Finite 1)\<rparr>;
          m2 = m1\<lparr>totalAttempts := js_plus (totalAttempts m1) (js_plus (Finite 1) r)\<rparr>;
          m3 = m2\<lparr>totalAttemptsFailed := js_plus (totalAttemptsFailed m2) r\<rparr>;
          m4 = (if status test = Failed then
                  m3\<lparr>totalResultsFailed := js_plus (totalResultsFailed m3) (Finite 1),
                     totalAttemptsFailed :=
                       js_plus (totalAttemptsFailed m3) (js_plus (Finite 1) r)\<rparr>
                else if status test = Passed then
                  m3\<lparr>totalResultsPassed := js_plus (totalResultsPassed m3) (Finite 1)\<rparr>
                else if status test = Skipped then
                  m3\<lparr>totalResultsSkipped := js_plus (totalResultsSkipped m3) (Finite 1)\<rparr>
                else if status test = Pending then
                  m3\<lparr>totalResultsSkipped := js_plus (totalResultsSkipped m3) (Finite 1)\<rparr>
                else if status test = Other then
                  m3\<lparr>totalResultsSkipped := js_plus (totalResultsSkipped m3) (Finite 1)\<rparr>
                else m3);
          m5 = (if isTestFlaky test
                then m4\<lparr>totalResultsFlaky := js_plus (totalResultsFlaky m4) (Finite 1)\<rparr>
                else m4)
      in m5\<lparr>totalResultsDuration :=
              js_plus (totalResultsDuration m5) (Finite (orZero (Some (duration test))))\<rparr>)"

text \<open>
  One iteration of the loop over a report's tests: create the entry if the name is new,
  fetch it, update it. The fetch \<^verbatim>\<open>metricsMap.get(testName)!\<close> cannot miss after the
  guard before it (lemma \<open>accumulateTest_entry\<close> below).
\<close>

definition accumulateTest :: "MetricsMap \<Rightarrow> CtrfTest \<Rightarrow> MetricsMap" where
  "accumulateTest metricsMap test =
     (let testName = name test;
          m' = (if map_of metricsMap testName = None
                then AList.update testName emptyMetrics metricsMap else metricsMap)
      in case map_of m' testName of
           Some metrics \<Rightarrow> AList.update testName (tallyTest test metrics) m'
         | None \<Rightarrow> m')"

text \<open>\<^verbatim>\<open>Set.add\<close>: a set in insertion order.\<close>

definition setAdd :: "'a list \<Rightarrow> 'a \<Rightarrow> 'a list" where
  "setAdd s x = (if x \<in> set s then s else s @ [x])"

definition testsInThisReport :: "CtrfTest list \<Rightarrow> string list" where
  "testsInThisReport ts = foldl setAdd [] (map name ts)"

definition countAppearance :: "MetricsMap \<Rightarrow> string \<Rightarrow> MetricsMap" where
  "countAppearance metricsMap testName =
     (case map_of metricsMap testName of
        Some metrics \<Rightarrow>
          AList.update testName
            (metrics\<lparr>appearsInRuns := js_plus (appearsInRuns metrics) (Finite 1)\<rparr>) metricsMap
      | None \<Rightarrow> metricsMap)"

text \<open>The body of the loop over the reports; a report that fails validation is skipped.\<close>

definition aggregateReport :: "MetricsMap \<Rightarrow> CtrfReport \<Rightarrow> MetricsMap" where
  "aggregateReport metricsMap report =
     (if \<not> validateReportForInsights report then metricsMap
      else (case results report of
              None \<Rightarrow> metricsMap
            | Some res \<Rightarrow>
                (case tests res of
                   TestsArray ts \<Rightarrow>
                     foldl countAppearance (foldl accumulateTest metricsMap ts)
                       (testsInThisReport ts)
                 | _ \<Rightarrow> metricsMap)))"

definition aggregateTestMetricsAcrossReports :: "CtrfReport list \<Rightarrow> MetricsMap" where
  "aggregateTestMetricsAcrossReports reports = foldl aggregateReport [] reports"

text \<open>
  Sum of one counter over \<^verbatim>\<open>metricsMap.values()\<close>. In the consolidation,
  \<^verbatim>\<open>metricsMap.size\<close> is the length of the list, whose keys are distinct (lemma
  \<open>keys_foldl_aggregateReport\<close> below).
\<close>

definition sumOver :: "(AggregatedTestMetrics \<Rightarrow> number) \<Rightarrow> MetricsMap \<Rightarrow> number" where
  "sumOver f metricsMap = foldl (\<lambda>acc kv. js_plus acc (f (snd kv))) (Finite 0) metricsMap"

definition consolidateTestMetricsToRunMetrics :: "MetricsMap \<Rightarrow> AggregatedRunMetrics" where
  "consolidateTestMetricsToRunMetrics metricsMap =
     \<lparr>totalAttempts = sumOver totalAttempts metricsMap,
      totalAttemptsFailed = sumOver totalAttemptsFailed metricsMap,
      totalResults = sumOver totalResults metricsMap,
      totalResultsFailed = sumOver totalResultsFailed metricsMap,
      totalResultsPassed = sumOver totalResultsPassed metricsMap,
      totalResultsSkipped = sumOver totalResultsSkipped metricsMap,
      totalResultsFlaky = sumOver totalResultsFlaky metricsMap,
      totalResultsDuration = sumOver totalResultsDuration metricsMap,
      reportsAnalyzed = Finite (of_nat (length metricsMap))\<rparr>"

text \<open>The test names a report contributes to the map (none when it is skipped).\<close>

definition reportNames :: "CtrfReport \<Rightarrow> string set" where
  "reportNames report =
     (case results report of
        None \<Rightarrow> {}
      | Some res \<Rightarrow> (case tests res of TestsArray ts \<Rightarrow> name ` set ts | _ \<Rightarrow> {}))"

section \<open>Run-level rates\<close>

text \<open>
  The functions take an \<^verbatim>\<open>AggregatedRunMetrics\<close>; as \<^verbatim>\<open>AggregatedTestMetrics\<close>
  extends that interface, they accept one test's metrics as well.
\<close>

definition calculateFlakyRateFromMetrics :: "'a AggregatedRunMetrics_scheme \<Rightarrow> number" where
  "calculateFlakyRateFromMetrics runMetrics =
     (if totalAttempts runMetrics = Finite 0 then Finite 0
      else toFixed2
             (js_times (js_divide (totalResultsFlaky runMetrics) (totalAttempts runMetrics)) (Finite 100)))"

definition calculateFailRateFromMetrics :: "'a AggregatedRunMetrics_scheme \<Rightarrow> number" where
  "calculateFailRateFromMetrics runMetrics =
     (if totalResults runMetrics = Finite 0 then Finite 0
      else toFixed2
             (js_times (js_divide (totalResultsFailed runMetrics) (totalResults runMetrics)) (Finite 100)))"

definition calculateSkippedRateFromMetrics :: "'a AggregatedRunMetrics_scheme \<Rightarrow> number" where
  "calculateSkippedRateFromMetrics runMetrics =
     (if totalResults runMetrics = Finite 0 then Finite 0
      else toFixed2
             (js_times (js_divide (totalResultsSkipped runMetrics) (totalResults runMetrics)) (Finite 100)))"

definition calculateAverageTestDurationFromMetrics :: "'a AggregatedRunMetrics_scheme \<Rightarrow> number" where
  "calculateAverageTestDurationFromMetrics runMetrics =
     (if totalResults runMetrics = Finite 0 then Finite 0
      else toFixed2 (js_divide (totalResultsDuration runMetrics) (totalResults runMetrics)))"

definition calculateAverageRunDurationFromMetrics :: "'a AggregatedRunMetrics_scheme \<Rightarrow> number" where
  "calculateAverageRunDurationFromMetrics runMetrics =
     (if reportsAnalyzed runMetrics = Finite 0 then Finite 0
      else toFixed2 (js_divide (totalResultsDuration runMetrics) (reportsAnalyzed runMetrics)))"

definition calculateAverageRunDurationInsight ::
  "CtrfReport \<Rightarrow> CtrfReport list \<Rightarrow> InsightsMetric" where
  "calculateAverageRunDurationInsight currentReport previousReports =
     (let allReports = currentReport # previousReports;
          testMetrics = aggregateTestMetricsAcrossReports allReports;
          runMetrics = consolidateTestMetricsToRunMetrics testMetrics
      in \<lparr>current = calculateAverageRunDurationFromMetrics runMetrics,
          previous = Finite 0, change = Finite 0\<rparr>)"

text \<open>
  \<^verbatim>\<open>extra\<close> receives the run metrics without \<^verbatim>\<open>reportsAnalyzed\<close>, here as the list of
  their keys and values.
\<close>

definition calculateCurrentInsights :: "CtrfReport \<Rightarrow> CtrfReport list \<Rightarrow> Insights" where
  "calculateCurrentInsights currentReport previousReports =
     (let allReports = currentReport # previousReports;
          testMetrics = aggregateTestMetricsAcrossReports allReports;
          runMetrics = consolidateTestMetricsToRunMetrics testMetrics
      in \<lparr>flakyRate =
            \<lparr>current = calculateFlakyRateFromMetrics runMetrics,
             previous = Finite 0, change = Finite 0\<rparr>,
          failRate =
            \<lparr>current = calculateFailRateFromMetrics runMetrics,
             previous = Finite 0, change = Finite 0\<rparr>,
          skippedRate =
            \<lparr>current = calculateSkippedRateFromMetrics runMetrics,
             previous = Finite 0, change = Finite 0\<rparr>,
          averageTestDuration =
            \<lparr>current = calculateAverageTestDurationFromMetrics runMetrics,
             previous = Finite 0, change = Finite 0\<rparr>,
          averageRunDuration =
            \<lparr>current = calculateAverageRunDurationFromMetrics runMetrics,
             previous = Finite 0, change = Finite 0\<rparr>,
          insightsReportsAnalyzed = of_nat (length allReports),
          extra = Some
            [(''totalAttempts'', totalAttempts runMetrics),
             (''totalAttemptsFailed'', totalAttemptsFailed runMetrics),
             (''totalResults'', totalResults runMetrics),
             (''totalResultsFailed'', totalResultsFailed runMetrics),
             (''totalResultsPassed'', totalResultsPassed runMetrics),
             (''totalResultsSkipped'', totalResultsSkipped runMetrics),
             (''totalResultsFlaky'', totalResultsFlaky runMetrics),
             (''totalResultsDuration'', totalResultsDuration runMetrics)]\<rparr>)"

section \<open>Test-level rates\<close>

definition calculateTestFlakyRate :: "string \<Rightarrow> AggregatedTestMetrics \<Rightarrow> InsightsMetric" where
  "calculateTestFlakyRate testName testMetrics =
     \<lparr>current =
        (if totalResults testMetrics = Finite 0 then Finite 0
         else toFixed2
                (js_times
                   (js_divide (totalResultsFlaky testMetrics) (totalResults testMetrics)) (Finite 100))),
      previous = Finite 0, change = Finite 0\<rparr>"

definition calculateTestFailRate :: "string \<Rightarrow> AggregatedTestMetrics \<Rightarrow> InsightsMetric" where
  "calculateTestFailRate testName testMetrics =
     \<lparr>current =
        (if totalResults testMetrics = Finite 0 then Finite 0
         else toFixed2
                (js_times
                   (js_divide (totalResultsFailed testMetrics) (totalResults testMetrics)) (Finite 100))),
      previous = Finite 0, change = Finite 0\<rparr>"

definition calculateTestSkippedRate :: "string \<Rightarrow> AggregatedTestMetrics \<Rightarrow> InsightsMetric" where
  "calculateTestSkippedRate testName testMetrics =
     \<lparr>current =
        (if totalResults testMetrics = Finite 0 then Finite 0
         else toFixed2
                (js_times
                   (js_divide (totalResultsSkipped testMetrics) (totalResults testMetrics)) (Finite 100))),
      previous = Finite 0, change = Finite 0\<rparr>"

definition calculateTestAverageDuration :: "string \<Rightarrow> AggregatedTestMetrics \<Rightarrow> InsightsMetric" where
  "calculateTestAverageDuration testName testMetrics =
     \<lparr>current =
        (if totalResults testMetrics = Finite 0 then Finite 0
         else toFixed2 (js_divide (totalResultsDuration testMetrics) (totalResults testMetrics))),
      previous = Finite 0, change = Finite 0\<rparr>"

section \<open>Baseline insights\<close>

text \<open>
  The function returns \<^verbatim>\<open>currentReport.insights\<close> itself, which may be
  \<^verbatim>\<open>undefined\<close>, when a snapshot is missing; the second component of the result is
  what it wrote with \<^verbatim>\<open>console.log\<close>.
\<close>

definition baselineMetric :: "InsightsMetric \<Rightarrow> InsightsMetric \<Rightarrow> InsightsMetric" where
  "baselineMetric cur prev =
     \<lparr>current = current cur, previous = current prev,
      change = toFixed2 (js_minus (current cur) (current prev))\<rparr>"

definition calculateReportInsightsBaseline ::
  "CtrfReport \<Rightarrow> CtrfReport \<Rightarrow> Insights option \<times> string list" where
  "calculateReportInsightsBaseline currentReport previousReport =
     (case (insights currentReport, insights previousReport) of
        (Some currentInsights, Some previousInsights) \<Rightarrow>
          (Some
             \<lparr>flakyRate = baselineMetric (flakyRate currentInsights) (flakyRate previousInsights),
              failRate = baselineMetric (failRate currentInsights) (failRate previousInsights),
              skippedRate =
                baselineMetric (skippedRate currentInsights) (skippedRate previousInsights),
              averageTestDuration =
                baselineMetric (averageTestDuration currentInsights)
                  (averageTestDuration previousInsights),
              averageRunDuration =
                baselineMetric (averageRunDuration currentInsights)
                  (averageRunDuration previousInsights),
              insightsReportsAnalyzed = insightsReportsAnalyzed currentInsights,
              extra = extra currentInsights\<rparr>,
           [])
      | _ \<Rightarrow> (insights currentReport, [''Both reports must have insights populated'']))"

section \<open>The rates of \<^verbatim>\<open>src/ctrf/insights.ts\<close>\<close>

text \<open>
  The older module has the same aggregation function (its record calls the duration
  \<^verbatim>\<open>totalDuration\<close> and the appearance count \<^verbatim>\<open>appearsInReports\<close>, and has no
  \<^verbatim>\<open>reportsAnalyzed\<close>). Its rate functions have the names of the ones above but take the
  map and sum the two counters they need themselves; they are suffixed \<open>Map\<close> here.
\<close>

definition calculateFlakyRateFromMetricsMap :: "MetricsMap \<Rightarrow> number" where
  "calculateFlakyRateFromMetricsMap metricsMap =
     (let attempts = sumOver totalAttempts metricsMap;
          resultsFlaky = sumOver totalResultsFlaky metricsMap
      in if attempts = Finite 0 then Finite 0
         else toFixed2 (js_times (js_divide resultsFlaky attempts) (Finite 100)))"

definition calculateFailRateFromMetricsMap :: "MetricsMap \<Rightarrow> number" where
  "calculateFailRateFromMetricsMap metricsMap =
     (let results = sumOver totalResults metricsMap;
          resultsFailed = sumOver totalResultsFailed metricsMap
      in if results = Finite 0 then Finite 0
         else toFixed2 (js_times (js_divide resultsFailed results) (Finite 100)))"

definition calculateSkippedRateFromMetricsMap :: "MetricsMap \<Rightarrow> number" where
  "calculateSkippedRateFromMetricsMap metricsMap =
     (let results = sumOver totalResults metricsMap;
          resultsSkipped = sumOver totalResultsSkipped metricsMap
      in if results = Finite 0 then Finite 0
         else toFixed2 (js_times (js_divide resultsSkipped results) (Finite 100)))"

definition calculateAverageTestDurationFromMetricsMap :: "MetricsMap \<Rightarrow> number" where
  "calculateAverageTestDurationFromMetricsMap metricsMap =
     (let totalDuration = sumOver totalResultsDuration metricsMap;
          results = sumOver totalResults metricsMap
      in if results = Finite 0 then Finite 0
         else toFixed2 (js_divide totalDuration results))"

text \<open>
  The loop of \<^verbatim>\<open>calculateAverageRunDurationFromReports\<close>, on the pair
  \<^verbatim>\<open>(totalRunDuration, validReports)\<close>.
\<close>

definition addRunDuration :: "int \<times> int \<Rightarrow> CtrfReport \<Rightarrow> int \<times> int" where
  "addRunDuration acc report =
     (if \<not> validateReportForInsights report then acc
      else (case results report of
              None \<Rightarrow> acc
            | Some res \<Rightarrow>
                (let s = summary res in
                 if start s \<noteq> 0 \<and> stop s \<noteq> 0 \<and> stop s > start s
                 then (fst acc + (stop s - start s), snd acc + 1)
                 else acc)))"

definition calculateAverageRunDurationFromReports :: "CtrfReport list \<Rightarrow> number" where
  "calculateAverageRunDurationFromReports reports =
     (let acc = foldl addRunDuration (0, 0) reports in
      if snd acc = 0 then Finite 0
      else toFixed2 (js_divide (Finite (of_int (fst acc))) (Finite (of_int (snd acc)))))"

section \<open>Previous runs\<close>

datatype RunStatus = StatusPassed | StatusFailed | StatusMixed

record PreviousRunData =
  runId :: string
  runDate :: int
  runStatus :: RunStatus
  runPassed :: int
  runFailed :: int
  runSkipped :: int
  runFlaky :: int
  runDuration :: int
  runBuildUrl :: "string option"
  runBuildNumber :: "string option"

datatype error = TypeError

text \<open>
  A number in a template literal, for the integers of the model: decimal digits, with a
  minus sign when negative (the exponent notation of magnitudes from \<open>10\<^sup>2\<^sup>1\<close> on is
  outside the model).
\<close>

fun natToString :: "nat \<Rightarrow> string" where
  "natToString n =
     (if n < 10 then [''0123456789'' ! n]
      else natToString (n div 10) @ [''0123456789'' ! (n mod 10)])"

definition numberToString :: "int \<Rightarrow> string" where
  "numberToString i = (if i < 0 then ''-'' @ natToString (nat (- i)) else natToString (nat i))"

text \<open>
  The callback of \<^verbatim>\<open>reports.map\<close>. Destructuring a missing \<^verbatim>\<open>results\<close> and calling
  \<^verbatim>\<open>filter\<close> on something that is not an array throw a \<^verbatim>\<open>TypeError\<close>. In
  \<^verbatim>\<open>environment?.buildNumber || ...\<close> the empty string is falsy.
\<close>

definition extractRun :: "nat \<Rightarrow> CtrfReport \<Rightarrow> error + PreviousRunData" where
  "extractRun index report =
     (case results report of
        None \<Rightarrow> Inl TypeError
      | Some res \<Rightarrow>
          (case tests res of
             TestsArray ts \<Rightarrow>
               (let s = summary res;
                    env = environment res;
                    flakyCount = int (length (filter (\<lambda>test. flaky test = Some True) ts));
                    dur = stop s - start s;
                    st = (if summaryFailed s > 0
                          then (if summaryPassed s > 0 then StatusMixed else StatusFailed)
                          else StatusPassed);
                    fallback = numberToString (start s) @ ''_'' @ natToString index;
                    ident = (case env of
                               None \<Rightarrow> fallback
                             | Some e \<Rightarrow>
                                 (case buildNumber e of
                                    None \<Rightarrow> fallback
                                  | Some b \<Rightarrow> if b = [] then fallback else b))
                in Inr \<lparr>runId = ident, runDate = start s, runStatus = st,
                        runPassed = summaryPassed s, runFailed = summaryFailed s,
                        runSkipped = summarySkipped s, runFlaky = flakyCount,
                        runDuration = dur,
                        runBuildUrl = (case env of None \<Rightarrow> None | Some e \<Rightarrow> buildUrl e),
                        runBuildNumber =
                          (case env of None \<Rightarrow> None | Some e \<Rightarrow> buildNumber e)\<rparr>)
           | _ \<Rightarrow> Inl TypeError))"

text \<open>\<^verbatim>\<open>reports.map\<close> from a given index on; the first exception ends it.\<close>

fun extractFrom :: "nat \<Rightarrow> CtrfReport list \<Rightarrow> error + PreviousRunData list" where
  "extractFrom index [] = Inr []"
| "extractFrom index (report # reports) =
     (case extractRun index report of
        Inl e \<Rightarrow> Inl e
      | Inr d \<Rightarrow>
          (case extractFrom (Suc index) reports of
             Inl e \<Rightarrow> Inl e
           | Inr ds \<Rightarrow> Inr (d # ds)))"

definition extractPreviousRunsData :: "CtrfReport list \<Rightarrow> error + PreviousRunData list" where
  "extractPreviousRunsData reports = extractFrom 0 reports"

declare natToString.simps [simp del]


section \<open>Example reports\<close>

text \<open>
  A report with a test name that occurs twice, once passed after two retries; a report
  of five passed tests of which only the summary is kept; and the same with a build
  number.
\<close>

definition exTests :: "CtrfTest list" where
  "exTests =
     [\<lparr>name = ''a'', status = Passed, duration = 100, retries = Some 2, flaky = None\<rparr>,
      \<lparr>name = ''a'', status = Failed, duration = 20, retries = None, flaky = None\<rparr>,
      \<lparr>name = ''b'', status = Failed, duration = 50, retries = Some 3, flaky = None\<rparr>]"

definition exResults :: Results where
  "exResults =
     \<lparr>summary = \<lparr>summaryTests = 3, summaryPassed = 1, summaryFailed = 2, summarySkipped = 0,
                  summaryPending = 0, summaryOther = 0, start = 7000, stop = 7170\<rparr>,
      tests = TestsArray exTests, environment = None\<rparr>"

definition exReport :: CtrfReport where
  "exReport = \<lparr>results = Some exResults, insights = None\<rparr>"

definition exPassedResults :: Results where
  "exPassedResults =
     \<lparr>summary = \<lparr>summaryTests = 5, summaryPassed = 5, summaryFailed = 0, summarySkipped = 0,
                  summaryPending = 0, summaryOther = 0, start = 1000, stop = 5000\<rparr>,
      tests = TestsArray [], environment = None\<rparr>"

definition exPassedReport :: CtrfReport where
  "exPassedReport = \<lparr>results = Some exPassedResults, insights = None\<rparr>"

definition exBuildReport :: CtrfReport where
  "exBuildReport =
     \<lparr>results = Some (exPassedResults
        \<lparr>environment := Some \<lparr>buildNumber = Some ''42'', buildUrl = None\<rparr>\<rparr>),
      insights = None\<rparr>"

text \<open>A snapshot whose five metrics all have the current value \<open>q\<close>.\<close>

definition exSnapshot :: "rat \<Rightarrow> Insights" where
  "exSnapshot q =
     \<lparr>flakyRate = \<lparr>current = Finite q, previous = Finite 0, change = Finite 0\<rparr>,
      failRate = \<lparr>current = Finite q, previous = Finite 0, change = Finite 0\<rparr>,
      skippedRate = \<lparr>current = Finite q, previous = Finite 0, change = Finite 0\<rparr>,
      averageTestDuration = \<lparr>current = Finite q, previous = Finite 0, change = Finite 0\<rparr>,
      averageRunDuration = \<lparr>current = Finite q, previous = Finite 0, change = Finite 0\<rparr>,
      insightsReportsAnalyzed = 1, extra = None\<rparr>"

text \<open>
  A report without \<^verbatim>\<open>results.tests\<close>, a report whose build number is the empty string,
  and the metrics of test \<open>a\<close> after aggregating \<open>exReport\<close> alone.
\<close>

definition exMalformedReport :: CtrfReport where
  "exMalformedReport =
     \<lparr>results = Some (exPassedResults\<lparr>tests := TestsMissing\<rparr>), insights = None\<rparr>"

definition exEmptyBuildReport :: CtrfReport where
  "exEmptyBuildReport =
     \<lparr>results = Some (exPassedResults
        \<lparr>environment := Some \<lparr>buildNumber = Some [], buildUrl = None\<rparr>\<rparr>),
      insights = None\<rparr>"

definition exMetricsA :: AggregatedTestMetrics where
  "exMetricsA =
     \<lparr>totalAttempts = Finite 4, totalAttemptsFailed = Finite 3, totalResults = Finite 2,
      totalResultsFailed = Finite 1, totalResultsPassed = Finite 1,
      totalResultsSkipped = Finite 0, totalResultsFlaky = Finite 1,
      totalResultsDuration = Finite 120, reportsAnalyzed = Finite 0,
      appearsInRuns = Finite 1\<rparr>"






section \<open>Properties of the rounding to binary64\<close>

text \<open>
  The exponent found by \<open>exponentOf\<close> is the right one, whole numbers up to \<open>2\<^sup>5\<^sup>3\<close>
  are doubles, and \<open>fl64\<close> is off by at most half a unit in the last place: by a relative
  error of at most \<open>2\<^sup>-\<^sup>5\<^sup>3\<close> in the normal range.
\<close>

lemma quotient_of_pos:
  assumes "0 < a"
  shows "0 < fst (quotient_of a)" and "0 < snd (quotient_of a)"
    and "a = of_int (fst (quotient_of a)) / of_int (snd (quotient_of a))"
proof -
  obtain p q where pq: "quotient_of a = (p, q)" by (cases "quotient_of a")
  then have q: "0 < q" by (rule quotient_of_denom_pos)
  from pq have a: "a = of_int p / of_int q" by (rule quotient_of_div)
  with assms q have "0 < p" by (simp add: zero_less_divide_iff)
  with pq q a show "0 < fst (quotient_of a)" "0 < snd (quotient_of a)"
    "a = of_int (fst (quotient_of a)) / of_int (snd (quotient_of a))" by simp_all
qed

lemma power_int_bitlen: "0 < x \<Longrightarrow> power_int (2::rat) (bitlen x) = 2 ^ nat (bitlen x)"
  by (simp add: power_int_def bitlen_nonneg)

lemma exponentOf_le:
  assumes "0 < a"
  shows "power_int 2 (exponentOf a) \<le> a"
proof -
  define p where "p = fst (quotient_of a)"
  define q where "q = snd (quotient_of a)"
  from quotient_of_pos [OF assms] have p: "0 < p" and q: "0 < q"
    and a: "a = of_int p / of_int q" by (simp_all add: p_def q_def)
  define k where "k = bitlen p - bitlen q"
  show ?thesis
  proof (cases "power_int 2 k \<le> a")
    case True
    then show ?thesis by (simp add: exponentOf_def Let_def k_def p_def q_def)
  next
    case False
    then have e: "exponentOf a = k - 1"
      by (simp add: exponentOf_def Let_def k_def p_def q_def)
    from bitlen_bounds [OF p] have "(2::int) ^ nat (bitlen p - 1) \<le> p" by simp
    then have lo: "(2::rat) ^ nat (bitlen p - 1) \<le> of_int p"
      by (metis of_int_le_iff of_int_numeral of_int_power)
    from bitlen_bounds [OF q] have "q < 2 ^ nat (bitlen q)" by simp
    then have hi: "of_int q \<le> (2::rat) ^ nat (bitlen q)"
      by (metis less_imp_le of_int_le_iff of_int_numeral of_int_power)
    have bp: "1 \<le> bitlen p" using p by (simp add: bitlen_alt_def)
    have "power_int (2::rat) ((bitlen p - 1) - bitlen q) =
            power_int 2 (bitlen p - 1) / power_int 2 (bitlen q)"
      by (rule power_int_diff) simp
    moreover have "(bitlen p - 1) - bitlen q = k - 1" by (simp add: k_def)
    ultimately have "power_int (2::rat) (k - 1) =
            power_int 2 (bitlen p - 1) / power_int 2 (bitlen q)"
      by (simp only:)
    also have "\<dots> = 2 ^ nat (bitlen p - 1) / 2 ^ nat (bitlen q)"
      using bp by (simp add: power_int_def bitlen_nonneg)
    also have "\<dots> \<le> of_int p / of_int q"
      using lo hi p q by (intro frac_le) simp_all
    finally have "power_int 2 (k - 1) \<le> a" by (simp only: a)
    then show ?thesis by (simp only: e)
  qed
qed

lemma exponentOf_gt:
  assumes "0 < a"
  shows "a < power_int 2 (exponentOf a + 1)"
proof -
  define p where "p = fst (quotient_of a)"
  define q where "q = snd (quotient_of a)"
  from quotient_of_pos [OF assms] have p: "0 < p" and q: "0 < q"
    and a: "a = of_int p / of_int q" by (simp_all add: p_def q_def)
  define k where "k = bitlen p - bitlen q"
  show ?thesis
  proof (cases "power_int 2 k \<le> a")
    case False
    then show ?thesis by (simp add: exponentOf_def Let_def k_def p_def q_def)
  next
    case True
    then have e: "exponentOf a = k"
      by (simp add: exponentOf_def Let_def k_def p_def q_def)
    from bitlen_bounds [OF p] have "p < 2 ^ nat (bitlen p)" by simp
    then have hi: "of_int p < (2::rat) ^ nat (bitlen p)"
      by (metis of_int_less_iff of_int_numeral of_int_power)
    from bitlen_bounds [OF q] have "(2::int) ^ nat (bitlen q - 1) \<le> q" by simp
    then have lo: "(2::rat) ^ nat (bitlen q - 1) \<le> of_int q"
      by (metis of_int_le_iff of_int_numeral of_int_power)
    have bq: "1 \<le> bitlen q" using q by (simp add: bitlen_alt_def)
    have "of_int p / of_int q < (2::rat) ^ nat (bitlen p) / 2 ^ nat (bitlen q - 1)"
      using lo hi p q by (intro frac_less) simp_all
    also have "\<dots> = power_int 2 (bitlen p) / power_int 2 (bitlen q - 1)"
      using bq by (simp add: power_int_def bitlen_nonneg)
    also have "\<dots> = power_int (2::rat) (bitlen p - (bitlen q - 1))"
      by (subst power_int_diff) simp_all
    also have "bitlen p - (bitlen q - 1) = k + 1" by (simp add: k_def)
    finally have "a < power_int 2 (k + 1)" by (simp only: a)
    then show ?thesis by (simp only: e)
  qed
qed

lemma roundHalfEven_of_int: "roundHalfEven (of_int n) = n"
  by (simp add: roundHalfEven_def)

lemma fl64_of_nat:
  assumes "n \<le> 2 ^ 53"
  shows "fl64 (of_nat n) = Finite (of_nat n)"
proof (cases "n = 0")
  case True
  then show ?thesis by (simp add: fl64_def)
next
  case False
  define a :: rat where "a = of_nat n"
  have apos: "0 < a" using False by (simp add: a_def)
  define e where "e = exponentOf a"
  define q where "q = max (e - 52) (- 1074)"
  have "power_int 2 e \<le> a" unfolding e_def by (rule exponentOf_le [OF apos])
  also have "a \<le> 2 ^ 53"
    using assms unfolding a_def by (metis of_nat_le_iff of_nat_numeral of_nat_power)
  finally have "power_int (2::rat) e \<le> power_int 2 53" by simp
  then have "e \<le> 53" by (rule power_int_le_imp_le_exp [rotated]) simp_all
  then have q1: "q \<le> 1" by (simp add: q_def)
  have "\<exists>m::int. a / power_int 2 q = of_int m"
  proof (cases "q \<le> 0")
    case True
    then have "a / power_int 2 q = of_int (int n * 2 ^ nat (- q))"
      by (simp add: a_def power_int_def field_simps)
    then show ?thesis by blast
  next
    case False
    with q1 have q: "q = 1" by simp
    then have "e = 53" using \<open>e \<le> 53\<close> by (simp add: q_def max_def split: if_splits)
    with \<open>power_int 2 e \<le> a\<close> \<open>a \<le> 2 ^ 53\<close> have "a = 2 ^ 53" by simp
    then have "a / power_int 2 q = of_int (2 ^ 52)" by (simp add: q)
    then show ?thesis by blast
  qed
  then obtain m :: int where m: "a / power_int 2 q = of_int m" by blast
  have pq: "(0::rat) < power_int 2 q" by simp
  from m have r: "of_int (roundHalfEven (a / power_int 2 q)) * power_int 2 q = a"
    using pq by (simp add: roundHalfEven_of_int field_simps)
  have "a < power_int 2 1024"
  proof -
    have "a \<le> 2 ^ 53" by fact
    also have "(2::rat) ^ 53 < 2 ^ 1024" by (rule power_strict_increasing) simp_all
    finally show ?thesis by simp
  qed
  then show ?thesis
    using apos r unfolding fl64_def a_def [symmetric] Let_def e_def [symmetric] q_def [symmetric]
    by (simp add: a_def [symmetric] e_def q_def)
qed



lemma fl64_Nats:
  assumes "x \<in> \<nat>" and "x \<le> 2 ^ 53"
  shows "fl64 x = Finite x"
proof -
  from assms(1) obtain n where n: "x = of_nat n" by (auto elim: Nats_cases)
  with assms(2) have "(of_nat n :: rat) \<le> of_nat (2 ^ 53)" by simp
  then have "n \<le> 2 ^ 53" by (simp only: of_nat_le_iff)
  then show ?thesis unfolding n by (rule fl64_of_nat)
qed

lemma fl64_numeral: "numeral w \<le> (2::rat) ^ 53 \<Longrightarrow> fl64 (numeral w) = Finite (numeral w)"
  by (rule fl64_Nats) simp_all

lemma fl64_zero: "fl64 0 = Finite 0"
  by (simp add: fl64_def)

lemma fl64_one: "fl64 1 = Finite 1"
  by (rule fl64_Nats) simp_all

lemma roundHalfEven_error: "\<bar>of_int (roundHalfEven m) - m\<bar> \<le> 1 / 2"
proof -
  have "of_int \<lfloor>m\<rfloor> \<le> m" "m < of_int \<lfloor>m\<rfloor> + 1" by linarith+
  then show ?thesis
    unfolding roundHalfEven_def Let_def by (simp add: abs_if) linarith
qed

lemma fl64_error:
  assumes "fl64 x = Finite y"
  shows "\<bar>y - x\<bar> \<le> power_int 2 (max (exponentOf \<bar>x\<bar> - 52) (- 1074)) / 2"
proof (cases "x = 0")
  case True
  with assms show ?thesis by (simp add: fl64_def)
next
  case False
  define q where "q = max (exponentOf \<bar>x\<bar> - 52) (- 1074)"
  define n where "n = roundHalfEven (\<bar>x\<bar> / power_int 2 q)"
  have p: "(0::rat) < power_int 2 q" by simp
  from assms False have y: "y = (if 0 < x then of_int n * power_int 2 q else - (of_int n * power_int 2 q))"
    by (simp add: fl64_def Let_def q_def n_def split: if_splits)
  have "\<bar>of_int n * power_int 2 q - \<bar>x\<bar>\<bar> = \<bar>of_int n - \<bar>x\<bar> / power_int 2 q\<bar> * power_int 2 q"
    using p by (simp add: abs_mult [symmetric] field_simps)
  also have "\<dots> \<le> 1 / 2 * power_int 2 q"
    unfolding n_def using p by (intro mult_right_mono roundHalfEven_error) simp
  finally have "\<bar>of_int n * power_int 2 q - \<bar>x\<bar>\<bar> \<le> power_int 2 q / 2" by simp
  then show ?thesis
    unfolding q_def [symmetric] y using False by (auto simp: abs_if split: if_splits)
qed

lemma fl64_relative_error:
  assumes "fl64 x = Finite y" and "power_int 2 (- 1022) \<le> \<bar>x\<bar>"
  shows "\<bar>y - x\<bar> \<le> \<bar>x\<bar> / 2 ^ 53"
proof -
  have "(0::rat) < power_int 2 (- 1022)" by (rule zero_less_power_int) simp
  with assms(2) have pos: "0 < \<bar>x\<bar>" by linarith
  define e where "e = exponentOf \<bar>x\<bar>"
  have lo: "power_int 2 e \<le> \<bar>x\<bar>" unfolding e_def by (rule exponentOf_le [OF pos])
  have hi: "\<bar>x\<bar> < power_int 2 (e + 1)" unfolding e_def by (rule exponentOf_gt [OF pos])
  from assms(2) hi have "power_int (2::rat) (- 1022) < power_int 2 (e + 1)" by simp
  then have "- 1022 < e + 1"
    by (metis not_less one_le_numeral power_int_increasing)
  then have q: "max (e - 52) (- 1074) = e - 52" by simp
  have "power_int (2::rat) (e - 52) / 2 = power_int 2 e / 2 ^ 53"
    by (simp add: power_int_diff)
  also have "\<dots> \<le> \<bar>x\<bar> / 2 ^ 53" using lo by (simp add: divide_right_mono)
  finally show ?thesis
    using fl64_error [OF assms(1)] unfolding e_def [symmetric] q by simp
qed

section \<open>Properties of the flakiness predicate\<close>

text \<open>
  C1. A test is flaky exactly when its flaky flag is true, or its retries count is
  greater than 0 and its final status is passed. So a passed test with 2 retries and no
  flag is flaky, and a failed test with positive retries is not flaky unless it is
  flagged.
\<close>

theorem isTestFlaky_iff:
  "(isTestFlaky t \<longleftrightarrow>
      flaky t = Some True \<or> (\<exists>r. retries t = Some r \<and> 0 < r \<and> status t = Passed))
   \<and> (status t = Passed \<and> retries t = Some 2 \<and> flaky t = None \<longrightarrow> isTestFlaky t)
   \<and> (status t = Failed \<and> (\<exists>r. retries t = Some r \<and> 0 < r) \<and> flaky t \<noteq> Some True
        \<longrightarrow> \<not> isTestFlaky t)"
  by (auto simp: isTestFlaky_def split: option.splits)

theorem isTestFlaky_iff_witness:
  "status (exTests ! 0) = Passed \<and> retries (exTests ! 0) = Some 2 \<and> flaky (exTests ! 0) = None
   \<and> isTestFlaky (exTests ! 0)
   \<and> status (exTests ! 2) = Failed \<and> retries (exTests ! 2) = Some 3
   \<and> flaky (exTests ! 2) = None
   \<and> \<not> isTestFlaky (exTests ! 2)"
proof -
  have a: "status (exTests ! 0) = Passed \<and> retries (exTests ! 0) = Some 2
           \<and> flaky (exTests ! 0) = None"
    by (simp add: exTests_def)
  have b: "status (exTests ! 2) = Failed \<and> retries (exTests ! 2) = Some 3
           \<and> flaky (exTests ! 2) = None"
    by (simp add: exTests_def)
  from isTestFlaky_iff [of "exTests ! 0"] a have c: "isTestFlaky (exTests ! 0)" by blast
  from isTestFlaky_iff [of "exTests ! 2"] b have d: "\<not> isTestFlaky (exTests ! 2)" by simp
  from a b c d show ?thesis by simp
qed

section \<open>Properties of the aggregation\<close>

lemma orZero_Some: "orZero (Some d) = d"
  by (simp add: orZero_def)

lemma accumulateTest_entry:
  "map_of (if map_of m (name t) = None then AList.update (name t) emptyMetrics m else m) (name t) \<noteq> None"
  by (simp add: update_conv')

lemma map_of_accumulateTest:
  "map_of (accumulateTest m t) =
     (map_of m)(name t \<mapsto> tallyTest t (case map_of m (name t) of None \<Rightarrow> emptyMetrics | Some x \<Rightarrow> x))"
  by (auto simp: accumulateTest_def Let_def update_conv' split: option.splits)

lemma map_of_foldl_accumulateTest:
  "map_of (foldl accumulateTest m ts) n =
     (if n \<in> name ` set ts
      then Some (foldl (\<lambda>x t. tallyTest t x)
                   (case map_of m n of None \<Rightarrow> emptyMetrics | Some x \<Rightarrow> x)
                   (filter (\<lambda>t. name t = n) ts))
      else map_of m n)"
proof (induction ts arbitrary: m)
  case Nil
  show ?case by simp
next
  case (Cons t ts)
  show ?case
  proof (cases "name t \<in> name ` set ts")
    case True
    then show ?thesis by (simp add: Cons.IH map_of_accumulateTest)
  next
    case False
    then have "filter (\<lambda>u. name u = name t) ts = []"
      by (auto simp: filter_empty_conv image_iff)
    with False show ?thesis by (simp add: Cons.IH map_of_accumulateTest)
  qed
qed

lemma tallyTest_fields:
  "totalResults (tallyTest t x) = js_plus (totalResults x) (Finite 1)"
  "totalAttempts (tallyTest t x) =
     js_plus (totalAttempts x) (js_plus (Finite 1) (Finite (orZero (retries t))))"
  "totalResultsDuration (tallyTest t x) = js_plus (totalResultsDuration x) (Finite (duration t))"
  "appearsInRuns (tallyTest t x) = appearsInRuns x"
  by (simp_all add: tallyTest_def Let_def orZero_Some)

lemma appearsInRuns_foldl_tallyTest:
  "appearsInRuns (foldl (\<lambda>x t. tallyTest t x) x ts) = appearsInRuns x"
  by (induction ts arbitrary: x) (simp_all add: tallyTest_fields)






lemma set_foldl_setAdd: "set (foldl setAdd s xs) = set s \<union> set xs"
  by (induction xs arbitrary: s) (auto simp: setAdd_def)

lemma distinct_foldl_setAdd: "distinct s \<Longrightarrow> distinct (foldl setAdd s xs)"
  by (induction xs arbitrary: s) (auto simp: setAdd_def)

lemma set_testsInThisReport: "set (testsInThisReport ts) = name ` set ts"
  by (simp add: testsInThisReport_def set_foldl_setAdd)

lemma distinct_testsInThisReport: "distinct (testsInThisReport ts)"
  by (simp add: testsInThisReport_def distinct_foldl_setAdd)

lemma map_of_countAppearance:
  "map_of (countAppearance m n) k =
     (if k = n
      then map_option (\<lambda>x. x\<lparr>appearsInRuns := js_plus (appearsInRuns x) (Finite 1)\<rparr>) (map_of m k)
      else map_of m k)"
  by (auto simp: countAppearance_def update_conv' split: option.splits)

lemma map_of_foldl_countAppearance:
  "distinct ns \<Longrightarrow>
   map_of (foldl countAppearance m ns) k =
     (if k \<in> set ns
      then map_option (\<lambda>x. x\<lparr>appearsInRuns := js_plus (appearsInRuns x) (Finite 1)\<rparr>) (map_of m k)
      else map_of m k)"
proof (induction ns arbitrary: m)
  case Nil
  show ?case by simp
next
  case (Cons n ns)
  then show ?case
    by (auto simp: map_of_countAppearance)
qed

lemma map_of_aggregateReport:
  assumes "results R = Some res" and "tests res = TestsArray ts"
  shows "map_of (aggregateReport m R) n =
     (if n \<in> name ` set ts
      then Some ((foldl (\<lambda>x t. tallyTest t x)
                   (case map_of m n of None \<Rightarrow> emptyMetrics | Some x \<Rightarrow> x)
                   (filter (\<lambda>t. name t = n) ts))
                 \<lparr>appearsInRuns :=
                    js_plus (appearsInRuns (case map_of m n of None \<Rightarrow> emptyMetrics | Some x \<Rightarrow> x))
                      (Finite 1)\<rparr>)
      else map_of m n)"
  using assms
  by (simp add: aggregateReport_def validateReportForInsights_def
      map_of_foldl_countAppearance distinct_testsInThisReport set_testsInThisReport
      map_of_foldl_accumulateTest appearsInRuns_foldl_tallyTest)

lemma aggregate_filter_valid_aux:
  "foldl aggregateReport m (filter validateReportForInsights reports) = foldl aggregateReport m reports"
  by (induction reports arbitrary: m) (auto simp: aggregateReport_def)

section \<open>Evaluation of the examples\<close>

lemmas example_defs =
  exReport_def exResults_def exTests_def exPassedReport_def exPassedResults_def
  exBuildReport_def

lemmas aggregate_defs =
  aggregateTestMetricsAcrossReports_def aggregateReport_def validateReportForInsights_def
  accumulateTest_def tallyTest_def emptyMetrics_def orZero_def isTestFlaky_def
  testsInThisReport_def setAdd_def countAppearance_def Let_def

lemmas fl64_simps = fl64_zero fl64_one fl64_numeral

lemma ex_aggregate:
  "aggregateTestMetricsAcrossReports [exReport] =
     [(''a'', exMetricsA),
      (''b'', \<lparr>totalAttempts = Finite 4, totalAttemptsFailed = Finite 7,
              totalResults = Finite 1, totalResultsFailed = Finite 1,
              totalResultsPassed = Finite 0, totalResultsSkipped = Finite 0,
              totalResultsFlaky = Finite 0, totalResultsDuration = Finite 50,
              reportsAnalyzed = Finite 0, appearsInRuns = Finite 1\<rparr>)]"
  by (simp add: aggregate_defs example_defs exMetricsA_def fl64_simps)


section \<open>Aggregating a report twice\<close>




text \<open>
  C7. A report is valid exactly when its results are present and \<open>results.tests\<close> is
  an array; the reports that are not valid contribute nothing: aggregating a list gives
  the same map as aggregating the list without them.
\<close>

theorem aggregate_skips_malformed:
  "(validateReportForInsights r \<longleftrightarrow> (\<exists>res ts. results r = Some res \<and> tests res = TestsArray ts))
   \<and> aggregateTestMetricsAcrossReports reports =
       aggregateTestMetricsAcrossReports (filter validateReportForInsights reports)"
  by (auto simp: aggregateTestMetricsAcrossReports_def aggregate_filter_valid_aux
      validateReportForInsights_def split: option.splits TestsField.splits)

section \<open>Properties of the rates\<close>

text \<open>
  \<open>round2\<close> rounds to two decimals in the sense of \<open>roundedTo2Decimals\<close>, and no other
  value does.
\<close>

lemma round2_of_int: "round2 (of_int k) = of_int k"
proof -
  have a: "\<lfloor>(of_int k :: rat) * 100 + 1 / 2\<rfloor> = k * 100"
    by (rule floor_unique) simp_all
  have b: "\<lfloor>- (of_int k :: rat) * 100 + 1 / 2\<rfloor> = - k * 100"
    by (rule floor_unique) simp_all
  show ?thesis
    unfolding round2_def a b by simp
qed

lemma round2_numeral: "round2 (numeral w) = numeral w"
  using round2_of_int [of "numeral w"] by simp

lemma round2_zero: "round2 0 = 0"
  using round2_of_int [of 0] by simp

lemma round2_rounded: "roundedTo2Decimals d (round2 d)"
proof (cases "d < 0")
  case False
  define f where "f = \<lfloor>d * 100 + 1 / 2\<rfloor>"
  have r: "round2 d = of_int f / 100" using False by (simp add: round2_def f_def)
  have lo: "of_int f \<le> d * 100 + 1 / 2" unfolding f_def by linarith
  have hi: "d * 100 + 1 / 2 < of_int f + 1" unfolding f_def by linarith
  have i: "of_int f / 100 * 100 = (of_int \<lfloor>of_int f / 100 * 100 :: rat\<rfloor> :: rat)" by simp
  from False lo hi have "0 \<le> f" unfolding f_def by (simp add: floor_less_iff not_less)
  with lo hi False show ?thesis
    unfolding roundedTo2Decimals_def r using i by (auto simp: abs_if field_simps)
next
  case True
  define f where "f = \<lfloor>- d * 100 + 1 / 2\<rfloor>"
  have r: "round2 d = - (of_int f / 100)" using True by (simp add: round2_def f_def)
  have lo: "of_int f \<le> - d * 100 + 1 / 2" unfolding f_def by linarith
  have hi: "- d * 100 + 1 / 2 < of_int f + 1" unfolding f_def by linarith
  have i: "- (of_int f / 100) * 100 = (of_int \<lfloor>- (of_int f / 100) * 100 :: rat\<rfloor> :: rat)"
    using of_int_floor_cancel [of "- (of_int f :: rat)"] by simp
  from True have "0 \<le> f" unfolding f_def by simp
  with lo hi True show ?thesis
    unfolding roundedTo2Decimals_def r using i by (auto simp: abs_if field_simps)
qed

lemma roundedTo2Decimals_unique:
  assumes "roundedTo2Decimals d r" and "roundedTo2Decimals d r'"
  shows "r = r'"
proof -
  define m where "m = \<lfloor>r * 100\<rfloor>"
  define m' where "m' = \<lfloor>r' * 100\<rfloor>"
  from assms have r: "r = of_int m / 100" and r': "r' = of_int m' / 100"
    by (simp_all add: roundedTo2Decimals_def m_def m'_def field_simps)
  from assms have b: "\<bar>r - d\<bar> \<le> 1 / 200" "\<bar>r' - d\<bar> \<le> 1 / 200"
    and t: "\<bar>r - d\<bar> < 1 / 200 \<or> \<bar>d\<bar> < \<bar>r\<bar>" "\<bar>r' - d\<bar> < 1 / 200 \<or> \<bar>d\<bar> < \<bar>r'\<bar>"
    by (simp_all add: roundedTo2Decimals_def)
  have "\<bar>(of_int m :: rat) - of_int m'\<bar> \<le> 1" using b unfolding r r' by (simp add: abs_if field_simps split: if_splits)
  then have "\<bar>m - m'\<bar> \<le> 1" by (metis of_int_1 of_int_abs of_int_diff of_int_le_iff)
  then consider "m' = m" | "m' = m + 1" | "m = m' + 1" by linarith
  then show ?thesis
  proof cases
    case 1
    then show ?thesis by (simp add: r r')
  next
    case 2
    with b t show ?thesis unfolding r r'
      by (cases "0 \<le> m") (auto simp: abs_if field_simps split: if_splits)
  next
    case 3
    with b t show ?thesis unfolding r r'
      by (cases "0 \<le> m'") (auto simp: abs_if field_simps split: if_splits)
  qed
qed

text \<open>
  Some values that exact arithmetic would get wrong: 3 / 40 is a double below 0.075 and
  prints as 0.07; (23 / 160) \<times> 100 is the double 14.374999999999998 and prints as 14.37.
\<close>

lemma rounding_steps:
  "fl64 (3 / 40) = Finite (5404319552844595 / 72057594037927936)"
  "round2 (5404319552844595 / 72057594037927936) = 7 / 100"
  "fl64 (23 / 160) = Finite (2589569785738035 / 18014398509481984)"
  "fl64 (64739244643450875 / 4503599627370496) = Finite (8092405580431359 / 562949953421312)"
  "round2 (8092405580431359 / 562949953421312) = 1437 / 100"
  by code_simp+

lemma rounding_instances:
  "toFixed2 (js_divide (Finite 3) (Finite 40)) = fl64 (7 / 100)"
  "toFixed2 (js_times (js_divide (Finite 23) (Finite 160)) (Finite 100)) = fl64 (1437 / 100)"
  "js_divide (Finite 1) (Finite 0) = PosInfinity"
  "js_divide (Finite 0) (Finite 0) = NaN"
  by (simp_all add: rounding_steps)

text \<open>
  C2. For every list of reports, with the counters consolidated from its aggregation: when
  \<open>totalAttempts\<close> is 0 the flaky rate is the number 0, and when \<open>totalResults\<close> is 0
  the fail rate, the skipped rate and the average test duration are the number 0, in
  both modules: the division is not evaluated.
\<close>

theorem rates_zero_denominator:
  fixes reports :: "CtrfReport list"
  defines "m \<equiv> aggregateTestMetricsAcrossReports reports"
  defines "rm \<equiv> consolidateTestMetricsToRunMetrics m"
  shows "(totalAttempts rm = Finite 0 \<longrightarrow> calculateFlakyRateFromMetrics rm = Finite 0)
       \<and> (totalResults rm = Finite 0 \<longrightarrow>
            calculateFailRateFromMetrics rm = Finite 0
          \<and> calculateSkippedRateFromMetrics rm = Finite 0
          \<and> calculateAverageTestDurationFromMetrics rm = Finite 0)
       \<and> (totalAttempts rm = Finite 0 \<longrightarrow> calculateFlakyRateFromMetricsMap m = Finite 0)
       \<and> (totalResults rm = Finite 0 \<longrightarrow>
            calculateFailRateFromMetricsMap m = Finite 0
          \<and> calculateSkippedRateFromMetricsMap m = Finite 0
          \<and> calculateAverageTestDurationFromMetricsMap m = Finite 0)"
  by (simp add: rm_def consolidateTestMetricsToRunMetrics_def
      calculateFlakyRateFromMetrics_def calculateFailRateFromMetrics_def
      calculateSkippedRateFromMetrics_def calculateAverageTestDurationFromMetrics_def
      calculateFlakyRateFromMetricsMap_def calculateFailRateFromMetricsMap_def
      calculateSkippedRateFromMetricsMap_def calculateAverageTestDurationFromMetricsMap_def)

theorem rates_zero_denominator_witness:
  "totalAttempts (consolidateTestMetricsToRunMetrics
      (aggregateTestMetricsAcrossReports [\<lparr>results = None, insights = None\<rparr>])) = Finite 0
   \<and> totalResults (consolidateTestMetricsToRunMetrics
      (aggregateTestMetricsAcrossReports [\<lparr>results = None, insights = None\<rparr>])) = Finite 0
   \<and> calculateFlakyRateFromMetrics (consolidateTestMetricsToRunMetrics
      (aggregateTestMetricsAcrossReports [\<lparr>results = None, insights = None\<rparr>])) = Finite 0
   \<and> calculateFailRateFromMetrics (consolidateTestMetricsToRunMetrics
      (aggregateTestMetricsAcrossReports [\<lparr>results = None, insights = None\<rparr>])) = Finite 0
   \<and> calculateFailRateFromMetricsMap
      (aggregateTestMetricsAcrossReports [\<lparr>results = None, insights = None\<rparr>]) = Finite 0"
proof -
  let ?rs = "[\<lparr>results = None, insights = None\<rparr>]"
  have m: "aggregateTestMetricsAcrossReports ?rs = []"
    by (simp add: aggregateTestMetricsAcrossReports_def aggregateReport_def
        validateReportForInsights_def)
  have h1: "totalAttempts (consolidateTestMetricsToRunMetrics
      (aggregateTestMetricsAcrossReports ?rs)) = Finite 0"
    by (simp add: m consolidateTestMetricsToRunMetrics_def sumOver_def)
  have h2: "totalResults (consolidateTestMetricsToRunMetrics
      (aggregateTestMetricsAcrossReports ?rs)) = Finite 0"
    by (simp add: m consolidateTestMetricsToRunMetrics_def sumOver_def)
  from rates_zero_denominator [of ?rs] h1 h2 show ?thesis by blast
qed

section \<open>Properties of the baseline\<close>

lemma baselineMetric_rounded:
  assumes "current c = Finite a" and "current p = Finite b" and "fl64 (a - b) = Finite d"
  shows "\<exists>r. roundedTo2Decimals d r \<and> (\<forall>r'. roundedTo2Decimals d r' \<longrightarrow> r' = r)
             \<and> change (baselineMetric c p) = fl64 r"
proof (intro exI [of _ "round2 d"] conjI allI impI)
  show "roundedTo2Decimals d (round2 d)" by (rule round2_rounded)
  show "r' = round2 d" if "roundedTo2Decimals d r'" for r'
    using that round2_rounded by (rule roundedTo2Decimals_unique)
  show "change (baselineMetric c p) = fl64 (round2 d)"
    using assms by (simp add: baselineMetric_def)
qed

lemma baselineMetric_all:
  "current (baselineMetric c p) = current c
   \<and> previous (baselineMetric c p) = current p
   \<and> change (baselineMetric c p) = toFixed2 (js_minus (current c) (current p))
   \<and> (\<forall>a b d. current c = Finite a \<and> current p = Finite b \<and> fl64 (a - b) = Finite d \<longrightarrow>
         (\<exists>r. roundedTo2Decimals d r \<and> (\<forall>r'. roundedTo2Decimals d r' \<longrightarrow> r' = r)
              \<and> change (baselineMetric c p) = fl64 r))"
proof (intro conjI allI impI)
  fix a b d
  assume "current c = Finite a \<and> current p = Finite b \<and> fl64 (a - b) = Finite d"
  then show "\<exists>r. roundedTo2Decimals d r \<and> (\<forall>r'. roundedTo2Decimals d r' \<longrightarrow> r' = r)
              \<and> change (baselineMetric c p) = fl64 r"
    using baselineMetric_rounded by blast
qed (simp_all add: baselineMetric_def)

text \<open>
  C3. When both reports carry a snapshot, the result is computed from the two snapshots
  alone (the reports' results are not read, and nothing is logged): for each of the five
  metrics, current is the current value of the current snapshot, previous is the current
  value of the previous snapshot, and change is \<^verbatim>\<open>Number(d.toFixed(2))\<close> for their
  difference \<open>d\<close>. When the two values are finite and so is \<open>d\<close>, the double that the
  subtraction gives, change is the double nearest to \<open>r\<close>, where \<open>r\<close> is \<open>d\<close> rounded to
  two decimals: the one whole number of hundredths nearest to \<open>d\<close>, the one away from
  zero on a tie. Current 10 against previous 4 gives change 6.
\<close>

theorem baseline_of_populated_snapshots:
  assumes "insights cur = Some ci" and "insights prev = Some pri"
  shows "\<exists>s. calculateReportInsightsBaseline cur prev = (Some s, [])
     \<and> (\<forall>M\<in>{flakyRate, failRate, skippedRate, averageTestDuration, averageRunDuration}.
           current (M s) = current (M ci)
         \<and> previous (M s) = current (M pri)
         \<and> change (M s) = toFixed2 (js_minus (current (M ci)) (current (M pri)))
         \<and> (\<forall>a b d. current (M ci) = Finite a \<and> current (M pri) = Finite b
                     \<and> fl64 (a - b) = Finite d \<longrightarrow>
               (\<exists>r. roundedTo2Decimals d r \<and> (\<forall>r'. roundedTo2Decimals d r' \<longrightarrow> r' = r)
                    \<and> change (M s) = fl64 r)))
     \<and> (current (flakyRate ci) = Finite 10 \<and> current (flakyRate pri) = Finite 4
          \<longrightarrow> change (flakyRate s) = Finite 6)
     \<and> calculateReportInsightsBaseline (cur\<lparr>results := rc\<rparr>) (prev\<lparr>results := rp\<rparr>) =
         calculateReportInsightsBaseline cur prev"
proof -
  define s where "s =
    \<lparr>flakyRate = baselineMetric (flakyRate ci) (flakyRate pri),
     failRate = baselineMetric (failRate ci) (failRate pri),
     skippedRate = baselineMetric (skippedRate ci) (skippedRate pri),
     averageTestDuration = baselineMetric (averageTestDuration ci) (averageTestDuration pri),
     averageRunDuration = baselineMetric (averageRunDuration ci) (averageRunDuration pri),
     insightsReportsAnalyzed = insightsReportsAnalyzed ci,
     extra = extra ci\<rparr>"
  have r: "calculateReportInsightsBaseline cur prev = (Some s, [])"
    using assms by (simp add: calculateReportInsightsBaseline_def s_def)
  have i: "calculateReportInsightsBaseline (cur\<lparr>results := rc\<rparr>) (prev\<lparr>results := rp\<rparr>) =
         calculateReportInsightsBaseline cur prev"
    using assms by (simp add: calculateReportInsightsBaseline_def)
  have f: "flakyRate s = baselineMetric (flakyRate ci) (flakyRate pri)"
    "failRate s = baselineMetric (failRate ci) (failRate pri)"
    "skippedRate s = baselineMetric (skippedRate ci) (skippedRate pri)"
    "averageTestDuration s = baselineMetric (averageTestDuration ci) (averageTestDuration pri)"
    "averageRunDuration s = baselineMetric (averageRunDuration ci) (averageRunDuration pri)"
    by (simp_all add: s_def)
  have six: "current (flakyRate ci) = Finite 10 \<and> current (flakyRate pri) = Finite 4
          \<longrightarrow> change (flakyRate s) = Finite 6"
    using round2_of_int [of 6] by (simp add: f baselineMetric_def fl64_numeral)
  have b: "\<forall>M\<in>{flakyRate, failRate, skippedRate, averageTestDuration, averageRunDuration}.
           current (M s) = current (M ci)
         \<and> previous (M s) = current (M pri)
         \<and> change (M s) = toFixed2 (js_minus (current (M ci)) (current (M pri)))
         \<and> (\<forall>a b d. current (M ci) = Finite a \<and> current (M pri) = Finite b
                     \<and> fl64 (a - b) = Finite d \<longrightarrow>
               (\<exists>r. roundedTo2Decimals d r \<and> (\<forall>r'. roundedTo2Decimals d r' \<longrightarrow> r' = r)
                    \<and> change (M s) = fl64 r))"
    unfolding ball_simps(7) ball_simps(5) f
    by (rule baselineMetric_all | rule conjI | rule TrueI)+
  from r b six i show ?thesis by blast
qed

lemma eighth_minus_tiny:
  "fl64 (1 / 8 - 1 / 2 ^ 70) = Finite (1 / 8)"
  "round2 (1 / 8) = 13 / 100"
  "fl64 (13 / 100) = Finite (1170935903116329 / 9007199254740992)"
  by code_simp+

theorem baseline_of_populated_snapshots_witness:
  "insights \<lparr>results = None, insights = Some (exSnapshot 10)\<rparr> = Some (exSnapshot 10)
   \<and> insights \<lparr>results = None, insights = Some (exSnapshot 4)\<rparr> = Some (exSnapshot 4)
   \<and> current (flakyRate (exSnapshot 10)) = Finite 10
   \<and> current (flakyRate (exSnapshot 4)) = Finite 4
   \<and> (\<exists>s. calculateReportInsightsBaseline
              \<lparr>results = None, insights = Some (exSnapshot 10)\<rparr>
              \<lparr>results = None, insights = Some (exSnapshot 4)\<rparr> = (Some s, [])
          \<and> current (flakyRate s) = Finite 10 \<and> previous (flakyRate s) = Finite 4
          \<and> change (flakyRate s) = Finite 6)
   \<and> (\<exists>s. calculateReportInsightsBaseline
              \<lparr>results = None, insights = Some (exSnapshot (1 / 8))\<rparr>
              \<lparr>results = None, insights = Some (exSnapshot (1 / 2 ^ 70))\<rparr> = (Some s, [])
          \<and> current (failRate s) = Finite (1 / 8) \<and> previous (failRate s) = Finite (1 / 2 ^ 70)
          \<and> change (failRate s) = fl64 (13 / 100))"
proof -
  let ?c = "\<lparr>results = None, insights = Some (exSnapshot 10)\<rparr>"
  let ?p = "\<lparr>results = None, insights = Some (exSnapshot 4)\<rparr>"
  let ?c' = "\<lparr>results = None, insights = Some (exSnapshot (1 / 8))\<rparr>"
  let ?p' = "\<lparr>results = None, insights = Some (exSnapshot (1 / 2 ^ 70))\<rparr>"
  have h1: "insights ?c = Some (exSnapshot 10)" by simp
  have h2: "insights ?p = Some (exSnapshot 4)" by simp
  have h3: "current (flakyRate (exSnapshot 10)) = Finite 10" by (simp add: exSnapshot_def)
  have h4: "current (flakyRate (exSnapshot 4)) = Finite 4" by (simp add: exSnapshot_def)
  from baseline_of_populated_snapshots [OF h1 h2, of None None] obtain s where
    s: "calculateReportInsightsBaseline ?c ?p = (Some s, [])"
    "\<forall>M\<in>{flakyRate, failRate, skippedRate, averageTestDuration, averageRunDuration}.
           current (M s) = current (M (exSnapshot 10))
         \<and> previous (M s) = current (M (exSnapshot 4))
         \<and> change (M s) = toFixed2 (js_minus (current (M (exSnapshot 10))) (current (M (exSnapshot 4))))
         \<and> (\<forall>a b d. current (M (exSnapshot 10)) = Finite a \<and> current (M (exSnapshot 4)) = Finite b
                     \<and> fl64 (a - b) = Finite d \<longrightarrow>
               (\<exists>r. roundedTo2Decimals d r \<and> (\<forall>r'. roundedTo2Decimals d r' \<longrightarrow> r' = r)
                    \<and> change (M s) = fl64 r))"
    "current (flakyRate (exSnapshot 10)) = Finite 10 \<and> current (flakyRate (exSnapshot 4)) = Finite 4
       \<longrightarrow> change (flakyRate s) = Finite 6"
    by blast
  from s(2) have "current (flakyRate s) = current (flakyRate (exSnapshot 10))
         \<and> previous (flakyRate s) = current (flakyRate (exSnapshot 4))
         \<and> change (flakyRate s) = toFixed2 (js_minus (current (flakyRate (exSnapshot 10)))
              (current (flakyRate (exSnapshot 4))))
         \<and> (\<forall>a b d. current (flakyRate (exSnapshot 10)) = Finite a
                     \<and> current (flakyRate (exSnapshot 4)) = Finite b
                     \<and> fl64 (a - b) = Finite d \<longrightarrow>
               (\<exists>r. roundedTo2Decimals d r \<and> (\<forall>r'. roundedTo2Decimals d r' \<longrightarrow> r' = r)
                    \<and> change (flakyRate s) = fl64 r))"
    by (rule bspec) simp
  then have "current (flakyRate s) = current (flakyRate (exSnapshot 10))"
    "previous (flakyRate s) = current (flakyRate (exSnapshot 4))" by blast+
  with s(1,3) h3 h4 have first: "\<exists>s. calculateReportInsightsBaseline ?c ?p = (Some s, [])
          \<and> current (flakyRate s) = Finite 10 \<and> previous (flakyRate s) = Finite 4
          \<and> change (flakyRate s) = Finite 6"
    by auto
  have g1: "insights ?c' = Some (exSnapshot (1 / 8))" by simp
  have g2: "insights ?p' = Some (exSnapshot (1 / 2 ^ 70))" by simp
  from baseline_of_populated_snapshots [OF g1 g2, of None None] obtain s' where
    s': "calculateReportInsightsBaseline ?c' ?p' = (Some s', [])"
    "\<forall>M\<in>{flakyRate, failRate, skippedRate, averageTestDuration, averageRunDuration}.
           current (M s') = current (M (exSnapshot (1 / 8)))
         \<and> previous (M s') = current (M (exSnapshot (1 / 2 ^ 70)))
         \<and> change (M s') = toFixed2 (js_minus (current (M (exSnapshot (1 / 8))))
              (current (M (exSnapshot (1 / 2 ^ 70)))))
         \<and> (\<forall>a b d. current (M (exSnapshot (1 / 8))) = Finite a
                     \<and> current (M (exSnapshot (1 / 2 ^ 70))) = Finite b
                     \<and> fl64 (a - b) = Finite d \<longrightarrow>
               (\<exists>r. roundedTo2Decimals d r \<and> (\<forall>r'. roundedTo2Decimals d r' \<longrightarrow> r' = r)
                    \<and> change (M s') = fl64 r))"
    by blast
  from s'(2) have q: "current (failRate s') = current (failRate (exSnapshot (1 / 8)))
         \<and> previous (failRate s') = current (failRate (exSnapshot (1 / 2 ^ 70)))
         \<and> change (failRate s') = toFixed2 (js_minus (current (failRate (exSnapshot (1 / 8))))
              (current (failRate (exSnapshot (1 / 2 ^ 70)))))
         \<and> (\<forall>a b d. current (failRate (exSnapshot (1 / 8))) = Finite a
                     \<and> current (failRate (exSnapshot (1 / 2 ^ 70))) = Finite b
                     \<and> fl64 (a - b) = Finite d \<longrightarrow>
               (\<exists>r. roundedTo2Decimals d r \<and> (\<forall>r'. roundedTo2Decimals d r' \<longrightarrow> r' = r)
                    \<and> change (failRate s') = fl64 r))"
    by (rule bspec) simp
  have e1: "current (failRate (exSnapshot (1 / 8))) = Finite (1 / 8)"
    and e2: "current (failRate (exSnapshot (1 / 2 ^ 70))) = Finite (1 / 2 ^ 70)"
    by (simp_all add: exSnapshot_def)
  from q e1 e2 have c: "current (failRate s') = Finite (1 / 8)"
    "previous (failRate s') = Finite (1 / 2 ^ 70)" by simp_all
  from q e1 e2 eighth_minus_tiny(1)
  have "\<exists>r. roundedTo2Decimals (1 / 8) r \<and> (\<forall>r'. roundedTo2Decimals (1 / 8) r' \<longrightarrow> r' = r)
              \<and> change (failRate s') = fl64 r"
    by blast
  then obtain r where r: "\<forall>r'. roundedTo2Decimals (1 / 8) r' \<longrightarrow> r' = r"
    "change (failRate s') = fl64 r" by blast
  from r(1) round2_rounded [of "1 / 8"] have "r = 13 / 100"
    by (simp add: eighth_minus_tiny(2))
  with r(2) c s'(1) have second: "\<exists>s. calculateReportInsightsBaseline ?c' ?p' = (Some s, [])
          \<and> current (failRate s) = Finite (1 / 8) \<and> previous (failRate s) = Finite (1 / 2 ^ 70)
          \<and> change (failRate s) = fl64 (13 / 100)"
    by auto
  from h1 h2 h3 h4 first second show ?thesis by simp
qed

text \<open>
  C8, as the program has it. When the current or the previous report carries no snapshot,
  the function returns what the current report carries, unchanged, and logs one
  diagnostic; there is no exception. So it returns nothing when it is the current report
  that has no snapshot; and when what the current report carries is the current-only
  snapshot of \<^verbatim>\<open>calculateCurrentInsights\<close>, the previous and change fields of the result
  are the number 0.
\<close>

theorem baseline_missing_snapshot:
  assumes "insights cur = None \<or> insights prev = None"
  shows "calculateReportInsightsBaseline cur prev =
           (insights cur, [''Both reports must have insights populated''])
     \<and> (insights cur = None \<longrightarrow> fst (calculateReportInsightsBaseline cur prev) = None)
     \<and> (\<forall>c ps. insights cur = Some (calculateCurrentInsights c ps) \<longrightarrow>
          (\<exists>s. fst (calculateReportInsightsBaseline cur prev) = Some s
             \<and> previous (flakyRate s) = Finite 0 \<and> change (flakyRate s) = Finite 0
             \<and> previous (failRate s) = Finite 0 \<and> change (failRate s) = Finite 0
             \<and> previous (skippedRate s) = Finite 0 \<and> change (skippedRate s) = Finite 0
             \<and> previous (averageTestDuration s) = Finite 0
             \<and> change (averageTestDuration s) = Finite 0
             \<and> previous (averageRunDuration s) = Finite 0
             \<and> change (averageRunDuration s) = Finite 0))"
proof -
  have r: "calculateReportInsightsBaseline cur prev =
           (insights cur, [''Both reports must have insights populated''])"
    using assms by (auto simp: calculateReportInsightsBaseline_def split: option.splits)
  show ?thesis
    unfolding r by (simp add: calculateCurrentInsights_def Let_def)
qed

theorem baseline_missing_snapshot_witness:
  "insights exReport = None
   \<and> calculateReportInsightsBaseline
        \<lparr>results = Some exResults, insights = Some (calculateCurrentInsights exReport [])\<rparr>
        exReport =
      (Some (calculateCurrentInsights exReport []),
       [''Both reports must have insights populated''])
   \<and> previous (flakyRate (calculateCurrentInsights exReport [])) = Finite 0
   \<and> change (flakyRate (calculateCurrentInsights exReport [])) = Finite 0"
proof -
  let ?c = "\<lparr>results = Some exResults, insights = Some (calculateCurrentInsights exReport [])\<rparr>"
  have n: "insights exReport = None" by (simp add: exReport_def)
  then have h: "insights ?c = None \<or> insights exReport = None" by simp
  have i: "insights ?c = Some (calculateCurrentInsights exReport [])" by simp
  from baseline_missing_snapshot [OF h] i n show ?thesis
    by (metis fst_conv option.inject)
qed

text \<open>
  C8, as stated, fails when it is the current report that carries no snapshot: what is
  returned then is no snapshot at all.
\<close>

theorem baseline_missing_snapshot_counterexample:
  "calculateReportInsightsBaseline exReport
     \<lparr>results = Some exResults, insights = Some (calculateCurrentInsights exReport [])\<rparr> =
   (None, [''Both reports must have insights populated''])"
  by (simp add: calculateReportInsightsBaseline_def exReport_def)

section \<open>Properties of the test-level rates\<close>

text \<open>
  The test-level fail rate, skipped rate and average duration are the run-level functions
  applied to the test's own counters.
\<close>

lemma test_level_rates_agree:
  "calculateTestFailRate n x =
     \<lparr>current = calculateFailRateFromMetrics x, previous = Finite 0, change = Finite 0\<rparr>"
  "calculateTestSkippedRate n x =
     \<lparr>current = calculateSkippedRateFromMetrics x, previous = Finite 0, change = Finite 0\<rparr>"
  "calculateTestAverageDuration n x =
     \<lparr>current = calculateAverageTestDurationFromMetrics x, previous = Finite 0,
      change = Finite 0\<rparr>"
  by (simp_all add: calculateTestFailRate_def calculateFailRateFromMetrics_def
      calculateTestSkippedRate_def calculateSkippedRateFromMetrics_def
      calculateTestAverageDuration_def calculateAverageTestDurationFromMetrics_def)


lemma small_quotients:
  "fl64 (1 / 2) = Finite (1 / 2)"
  "fl64 (1 / 4) = Finite (1 / 4)"
  by code_simp+

text \<open>
  C4. The test-level flaky rate is not the run-level formula on the test's counters: it
  divides by \<open>totalResults\<close>, the run-level one by \<open>totalAttempts\<close>. For test \<open>a\<close> of
  the example (1 flaky result, 2 results, 4 attempts) \<^verbatim>\<open>calculateTestFlakyRate\<close> gives
  50, and \<open>100 \<times> totalResultsFlaky / totalAttempts\<close>, which is what
  \<^verbatim>\<open>calculateFlakyRateFromMetrics\<close> computes from the same counters, is 25.
\<close>

theorem test_flaky_rate_over_results:
  "map_of (aggregateTestMetricsAcrossReports [exReport]) ''a'' = Some exMetricsA
   \<and> totalResultsFlaky exMetricsA = Finite 1 \<and> totalAttempts exMetricsA = Finite 4
   \<and> totalResults exMetricsA = Finite 2
   \<and> current (calculateTestFlakyRate ''a'' exMetricsA) = Finite 50
   \<and> calculateFlakyRateFromMetrics exMetricsA = Finite 25"
  using round2_of_int [of 50] round2_of_int [of 25]
  by (simp add: ex_aggregate calculateTestFlakyRate_def calculateFlakyRateFromMetrics_def
      exMetricsA_def small_quotients fl64_simps)

section \<open>Properties of the average run duration\<close>

text \<open>
  The keys of the aggregated map are distinct, and they are the test names of the reports
  that pass validation: the \<open>reportsAnalyzed\<close> of the consolidated metrics is the
  number of these names.
\<close>

lemma distinct_accumulateTest:
  "distinct (map fst m) \<Longrightarrow> distinct (map fst (accumulateTest m t))"
  by (simp add: accumulateTest_def Let_def distinct_update split: option.splits)

lemma distinct_foldl_accumulateTest:
  "distinct (map fst m) \<Longrightarrow> distinct (map fst (foldl accumulateTest m ts))"
  by (induction ts arbitrary: m) (simp_all add: distinct_accumulateTest)

lemma distinct_countAppearance:
  "distinct (map fst m) \<Longrightarrow> distinct (map fst (countAppearance m n))"
  by (simp add: countAppearance_def distinct_update split: option.splits)

lemma distinct_foldl_countAppearance:
  "distinct (map fst m) \<Longrightarrow> distinct (map fst (foldl countAppearance m ns))"
  by (induction ns arbitrary: m) (simp_all add: distinct_countAppearance)

lemma distinct_aggregateReport:
  "distinct (map fst m) \<Longrightarrow> distinct (map fst (aggregateReport m R))"
  by (simp add: aggregateReport_def distinct_foldl_countAppearance
      distinct_foldl_accumulateTest split: option.splits TestsField.splits)

lemma dom_aggregateReport:
  "dom (map_of (aggregateReport m R)) = dom (map_of m) \<union> reportNames R"
proof (cases "\<exists>res ts. results R = Some res \<and> tests res = TestsArray ts")
  case True
  then obtain res ts where r: "results R = Some res" "tests res = TestsArray ts" by blast
  have "\<And>n. (map_of (aggregateReport m R) n \<noteq> None) =
          (map_of m n \<noteq> None \<or> n \<in> name ` set ts)"
    by (simp add: map_of_aggregateReport [OF r])
  then show ?thesis
    using r by (auto simp: reportNames_def dom_def)
next
  case False
  then have "aggregateReport m R = m" "reportNames R = {}"
    by (auto simp: aggregateReport_def validateReportForInsights_def reportNames_def
        split: option.splits TestsField.splits)
  then show ?thesis by simp
qed

lemma keys_foldl_aggregateReport:
  "distinct (map fst m) \<Longrightarrow>
   distinct (map fst (foldl aggregateReport m reports))
   \<and> dom (map_of (foldl aggregateReport m reports)) =
       dom (map_of m) \<union> (\<Union>r\<in>set reports. reportNames r)"
proof (induction reports arbitrary: m)
  case Nil
  then show ?case by simp
next
  case (Cons r rs)
  from Cons.IH [OF distinct_aggregateReport [OF Cons.prems], of r]
  show ?case by (auto simp: dom_aggregateReport)
qed

lemma reportsAnalyzed_counts_names:
  "reportsAnalyzed (consolidateTestMetricsToRunMetrics (aggregateTestMetricsAcrossReports reports)) =
     Finite (of_nat (card (\<Union>r\<in>set reports. reportNames r)))"
proof -
  let ?m = "aggregateTestMetricsAcrossReports reports"
  from keys_foldl_aggregateReport [of "[]" reports]
  have d: "distinct (map fst ?m)"
    and k: "dom (map_of ?m) = (\<Union>r\<in>set reports. reportNames r)"
    by (simp_all add: aggregateTestMetricsAcrossReports_def)
  have "length ?m = card (set (map fst ?m))"
    using d by (metis distinct_card length_map)
  also have "set (map fst ?m) = dom (map_of ?m)"
    by (simp add: dom_map_of_conv_image_fst)
  finally show ?thesis
    by (simp add: consolidateTestMetricsToRunMetrics_def k)
qed


text \<open>
  C5. The divisor of the average run duration is the \<open>reportsAnalyzed\<close> of the
  consolidated metrics, which is the size of the metrics map: the number of test names,
  not of reports. For the one example report, with two test names and a total duration
  of 170, the average run duration is 85, while the snapshot's own \<open>reportsAnalyzed\<close>
  is 1 and the older module's average over the reports is 170.
\<close>

theorem average_run_duration_over_names:
  "length [exReport] = 1
   \<and> totalResultsDuration
       (consolidateTestMetricsToRunMetrics (aggregateTestMetricsAcrossReports [exReport])) =
       Finite 170
   \<and> reportsAnalyzed
       (consolidateTestMetricsToRunMetrics (aggregateTestMetricsAcrossReports [exReport])) =
       Finite 2
   \<and> current (calculateAverageRunDurationInsight exReport []) = Finite 85
   \<and> insightsReportsAnalyzed (calculateCurrentInsights exReport []) = 1
   \<and> calculateAverageRunDurationFromReports [exReport] = Finite 170"
proof -
  have a: "totalResultsDuration
       (consolidateTestMetricsToRunMetrics (aggregateTestMetricsAcrossReports [exReport])) =
       Finite 170"
    and b: "reportsAnalyzed
       (consolidateTestMetricsToRunMetrics (aggregateTestMetricsAcrossReports [exReport])) =
       Finite 2"
    by (simp_all add: ex_aggregate consolidateTestMetricsToRunMetrics_def sumOver_def
        exMetricsA_def fl64_simps)
  have c: "current (calculateAverageRunDurationInsight exReport []) = Finite 85"
    using round2_of_int [of 85]
    by (simp add: calculateAverageRunDurationInsight_def Let_def a b
        calculateAverageRunDurationFromMetrics_def fl64_simps)
  have d: "insightsReportsAnalyzed (calculateCurrentInsights exReport []) = 1"
    by (simp add: calculateCurrentInsights_def Let_def)
  have e: "calculateAverageRunDurationFromReports [exReport] = Finite 170"
    using round2_of_int [of 170]
    by (simp add: calculateAverageRunDurationFromReports_def addRunDuration_def
        validateReportForInsights_def example_defs Let_def fl64_simps)
  from a b c d e show ?thesis by simp
qed

section \<open>Properties of the previous-runs extraction\<close>

lemma extractRun_valid:
  assumes "validateReportForInsights r"
  shows "\<exists>d. extractRun k r = Inr d"
  using assms
  by (auto simp: validateReportForInsights_def extractRun_def Let_def
      split: option.splits TestsField.splits)

lemma extractFrom_valid:
  "\<forall>r\<in>set reports. validateReportForInsights r \<Longrightarrow>
   \<exists>recs. extractFrom k reports = Inr recs \<and> length recs = length reports
     \<and> (\<forall>i<length reports. extractRun (k + i) (reports ! i) = Inr (recs ! i))"
proof (induction reports arbitrary: k)
  case Nil
  show ?case by simp
next
  case (Cons r rs)
  from Cons.prems obtain d where d: "extractRun k r = Inr d"
    using extractRun_valid by fastforce
  from Cons.prems have "\<forall>r\<in>set rs. validateReportForInsights r" by simp
  from Cons.IH [OF this, of "Suc k"] obtain ds where
    ds: "extractFrom (Suc k) rs = Inr ds" "length ds = length rs"
      "\<forall>i<length rs. extractRun (Suc k + i) (rs ! i) = Inr (ds ! i)"
    by blast
  have "\<forall>i<length (r # rs). extractRun (k + i) ((r # rs) ! i) = Inr ((d # ds) ! i)"
  proof (intro allI impI)
    fix i assume "i < length (r # rs)"
    then show "extractRun (k + i) ((r # rs) ! i) = Inr ((d # ds) ! i)"
      using d ds(3) by (cases i) auto
  qed
  with d ds show ?case by simp
qed

lemma extractRun_fields:
  assumes "extractRun i r = Inr d" and "results r = Some res"
  shows "runDate d = start (summary res)"
    and "runDuration d = stop (summary res) - start (summary res)"
    and "runStatus d =
           (if summaryFailed (summary res) > 0
            then (if summaryPassed (summary res) > 0 then StatusMixed else StatusFailed)
            else StatusPassed)"
    and "runId d =
           (case environment res of
              None \<Rightarrow> numberToString (start (summary res)) @ ''_'' @ natToString i
            | Some e \<Rightarrow>
                (case buildNumber e of
                   None \<Rightarrow> numberToString (start (summary res)) @ ''_'' @ natToString i
                 | Some b \<Rightarrow>
                     if b = [] then numberToString (start (summary res)) @ ''_'' @ natToString i
                     else b))"
  using assms
  by (auto simp: extractRun_def Let_def split: option.splits TestsField.splits)

lemma extractRun_flaky:
  assumes "extractRun i r = Inr d" and "results r = Some res" and "tests res = TestsArray ts"
  shows "runFlaky d = int (length (filter (\<lambda>t. flaky t = Some True) ts))"
  using assms by (auto simp: extractRun_def Let_def)

text \<open>
  C9, as the program has it. For a list of reports that all have their results and a
  tests array, the extraction returns one record per report, in order. The id of the
  record at index \<open>i\<close> is the build number when there is one and it is not the empty
  string, and otherwise the start time, an underscore and \<open>i\<close>; its date is the start
  time, its duration stop minus start, its status passed when \<open>failed\<close> is 0, failed
  when \<open>failed\<close> is positive and \<open>passed\<close> is 0, mixed when both are positive.
\<close>

theorem extract_previous_runs:
  assumes "\<forall>r\<in>set reports. validateReportForInsights r"
  shows "\<exists>recs. extractPreviousRunsData reports = Inr recs
     \<and> length recs = length reports
     \<and> (\<forall>i res. i < length reports \<and> results (reports ! i) = Some res \<longrightarrow>
          (\<forall>e b. environment res = Some e \<and> buildNumber e = Some b \<and> b \<noteq> []
                   \<longrightarrow> runId (recs ! i) = b)
        \<and> ((environment res = None
             \<or> (\<exists>e. environment res = Some e
                    \<and> (buildNumber e = None \<or> buildNumber e = Some [])))
             \<longrightarrow> runId (recs ! i) = numberToString (start (summary res)) @ ''_'' @ natToString i)
        \<and> runDate (recs ! i) = start (summary res)
        \<and> runDuration (recs ! i) = stop (summary res) - start (summary res)
        \<and> (summaryFailed (summary res) = 0 \<longrightarrow> runStatus (recs ! i) = StatusPassed)
        \<and> (summaryFailed (summary res) > 0 \<and> summaryPassed (summary res) = 0
             \<longrightarrow> runStatus (recs ! i) = StatusFailed)
        \<and> (summaryFailed (summary res) > 0 \<and> summaryPassed (summary res) > 0
             \<longrightarrow> runStatus (recs ! i) = StatusMixed))"
proof -
  from extractFrom_valid [OF assms, of 0] obtain recs where
    recs: "extractFrom 0 reports = Inr recs" "length recs = length reports"
      "\<forall>i<length reports. extractRun i (reports ! i) = Inr (recs ! i)"
    by auto
  have "\<forall>i res. i < length reports \<and> results (reports ! i) = Some res \<longrightarrow>
          (\<forall>e b. environment res = Some e \<and> buildNumber e = Some b \<and> b \<noteq> []
                   \<longrightarrow> runId (recs ! i) = b)
        \<and> ((environment res = None
             \<or> (\<exists>e. environment res = Some e
                    \<and> (buildNumber e = None \<or> buildNumber e = Some [])))
             \<longrightarrow> runId (recs ! i) = numberToString (start (summary res)) @ ''_'' @ natToString i)
        \<and> runDate (recs ! i) = start (summary res)
        \<and> runDuration (recs ! i) = stop (summary res) - start (summary res)
        \<and> (summaryFailed (summary res) = 0 \<longrightarrow> runStatus (recs ! i) = StatusPassed)
        \<and> (summaryFailed (summary res) > 0 \<and> summaryPassed (summary res) = 0
             \<longrightarrow> runStatus (recs ! i) = StatusFailed)
        \<and> (summaryFailed (summary res) > 0 \<and> summaryPassed (summary res) > 0
             \<longrightarrow> runStatus (recs ! i) = StatusMixed)"
  proof (intro allI impI)
    fix i res
    assume a: "i < length reports \<and> results (reports ! i) = Some res"
    with recs(3) have x: "extractRun i (reports ! i) = Inr (recs ! i)" by simp
    from a have y: "results (reports ! i) = Some res" by simp
    show "(\<forall>e b. environment res = Some e \<and> buildNumber e = Some b \<and> b \<noteq> []
                   \<longrightarrow> runId (recs ! i) = b)
        \<and> ((environment res = None
             \<or> (\<exists>e. environment res = Some e
                    \<and> (buildNumber e = None \<or> buildNumber e = Some [])))
             \<longrightarrow> runId (recs ! i) = numberToString (start (summary res)) @ ''_'' @ natToString i)
        \<and> runDate (recs ! i) = start (summary res)
        \<and> runDuration (recs ! i) = stop (summary res) - start (summary res)
        \<and> (summaryFailed (summary res) = 0 \<longrightarrow> runStatus (recs ! i) = StatusPassed)
        \<and> (summaryFailed (summary res) > 0 \<and> summaryPassed (summary res) = 0
             \<longrightarrow> runStatus (recs ! i) = StatusFailed)
        \<and> (summaryFailed (summary res) > 0 \<and> summaryPassed (summary res) > 0
             \<longrightarrow> runStatus (recs ! i) = StatusMixed)"
      using extractRun_fields [OF x y] by auto
  qed
  with recs(1,2) show ?thesis
    unfolding extractPreviousRunsData_def by blast
qed

theorem extract_previous_runs_witness:
  "validateReportForInsights exReport \<and> validateReportForInsights exBuildReport
   \<and> validateReportForInsights exPassedReport
   \<and> (\<exists>recs. extractPreviousRunsData [exReport, exBuildReport, exPassedReport] = Inr recs
         \<and> length recs = 3
         \<and> runId (recs ! 1) = ''42''
         \<and> runId (recs ! 2) = ''1000_2''
         \<and> runStatus (recs ! 2) = StatusPassed
         \<and> runDuration (recs ! 2) = 4000)"
proof -
  let ?rs = "[exReport, exBuildReport, exPassedReport]"
  have h: "\<forall>r\<in>set ?rs. validateReportForInsights r"
    by (simp add: validateReportForInsights_def example_defs)
  from extract_previous_runs [OF h] obtain recs where
    r: "extractPreviousRunsData ?rs = Inr recs" "length recs = length ?rs"
    and p: "\<And>i res. i < length ?rs \<and> results (?rs ! i) = Some res \<Longrightarrow>
          (\<forall>e b. environment res = Some e \<and> buildNumber e = Some b \<and> b \<noteq> []
                   \<longrightarrow> runId (recs ! i) = b)
        \<and> ((environment res = None
             \<or> (\<exists>e. environment res = Some e
                    \<and> (buildNumber e = None \<or> buildNumber e = Some [])))
             \<longrightarrow> runId (recs ! i) = numberToString (start (summary res)) @ ''_'' @ natToString i)
        \<and> runDate (recs ! i) = start (summary res)
        \<and> runDuration (recs ! i) = stop (summary res) - start (summary res)
        \<and> (summaryFailed (summary res) = 0 \<longrightarrow> runStatus (recs ! i) = StatusPassed)
        \<and> (summaryFailed (summary res) > 0 \<and> summaryPassed (summary res) = 0
             \<longrightarrow> runStatus (recs ! i) = StatusFailed)
        \<and> (summaryFailed (summary res) > 0 \<and> summaryPassed (summary res) > 0
             \<longrightarrow> runStatus (recs ! i) = StatusMixed)"
    by blast
  have p2: "runId (recs ! 2) = ''1000_2'' \<and> runStatus (recs ! 2) = StatusPassed
            \<and> runDuration (recs ! 2) = 4000"
    using p [of 2 exPassedResults]
    by (simp add: example_defs numberToString_def natToString.simps)
  have p1: "runId (recs ! 1) = ''42''"
    using p [of 1 "exPassedResults\<lparr>environment := Some \<lparr>buildNumber = Some ''42'', buildUrl = None\<rparr>\<rparr>"]
    by (simp add: example_defs)
  from h r p1 p2 show ?thesis by simp
qed

text \<open>
  C9, as stated, fails on two inputs: a report without a tests array makes the
  extraction throw, so that no record is returned; and a build number that is the empty
  string is present but is not the id.
\<close>

theorem extract_previous_runs_counterexample:
  "extractPreviousRunsData [exMalformedReport] = Inl TypeError
   \<and> extractPreviousRunsData [exEmptyBuildReport] =
       Inr [\<lparr>runId = ''1000_0'', runDate = 1000, runStatus = StatusPassed, runPassed = 5,
             runFailed = 0, runSkipped = 0, runFlaky = 0, runDuration = 4000,
             runBuildUrl = None, runBuildNumber = Some []\<rparr>]"
  by (simp add: extractPreviousRunsData_def extractRun_def exMalformedReport_def
      exEmptyBuildReport_def exPassedResults_def numberToString_def natToString.simps)

text \<open>
  C10. In the record extracted from a report, the flaky count is the number of tests whose
  flaky flag is \<^verbatim>\<open>true\<close>. When no test carries the flag the count is 0, whatever the
  flakiness predicate says of the tests: in the example report the first test passed
  after two retries and the count is 0.
\<close>

theorem historical_flaky_count:
  assumes "\<forall>r\<in>set reports. validateReportForInsights r"
  shows "\<exists>recs. extractPreviousRunsData reports = Inr recs
     \<and> (\<forall>i res ts. i < length reports \<and> results (reports ! i) = Some res
                    \<and> tests res = TestsArray ts \<longrightarrow>
          runFlaky (recs ! i) = int (length (filter (\<lambda>t. flaky t = Some True) ts))
        \<and> ((\<forall>t\<in>set ts. flaky t \<noteq> Some True) \<longrightarrow> runFlaky (recs ! i) = 0))"
proof -
  from extractFrom_valid [OF assms, of 0] obtain recs where
    recs: "extractFrom 0 reports = Inr recs"
      "\<forall>i<length reports. extractRun i (reports ! i) = Inr (recs ! i)"
    by auto
  have "\<forall>i res ts. i < length reports \<and> results (reports ! i) = Some res
                    \<and> tests res = TestsArray ts \<longrightarrow>
          runFlaky (recs ! i) = int (length (filter (\<lambda>t. flaky t = Some True) ts))
        \<and> ((\<forall>t\<in>set ts. flaky t \<noteq> Some True) \<longrightarrow> runFlaky (recs ! i) = 0)"
  proof (intro allI impI)
    fix i res ts
    assume a: "i < length reports \<and> results (reports ! i) = Some res \<and> tests res = TestsArray ts"
    with recs(2) have x: "extractRun i (reports ! i) = Inr (recs ! i)" by simp
    with a have c: "runFlaky (recs ! i) = int (length (filter (\<lambda>t. flaky t = Some True) ts))"
      using extractRun_flaky by blast
    moreover have "(\<forall>t\<in>set ts. flaky t \<noteq> Some True) \<longrightarrow> runFlaky (recs ! i) = 0"
      unfolding c by (simp add: filter_empty_conv)
    ultimately show "runFlaky (recs ! i) = int (length (filter (\<lambda>t. flaky t = Some True) ts))
        \<and> ((\<forall>t\<in>set ts. flaky t \<noteq> Some True) \<longrightarrow> runFlaky (recs ! i) = 0)"
      by simp
  qed
  with recs(1) show ?thesis
    unfolding extractPreviousRunsData_def by blast
qed

theorem historical_flaky_count_witness:
  "validateReportForInsights exReport
   \<and> results ([exReport] ! 0) = Some exResults \<and> tests exResults = TestsArray exTests
   \<and> filter (\<lambda>t. flaky t = Some True) exTests = []
   \<and> isTestFlaky (exTests ! 0)
   \<and> (\<exists>recs. extractPreviousRunsData [exReport] = Inr recs \<and> runFlaky (recs ! 0) = 0)"
proof -
  have h: "\<forall>r\<in>set [exReport]. validateReportForInsights r"
    by (simp add: validateReportForInsights_def example_defs)
  have a: "results ([exReport] ! 0) = Some exResults" by (simp add: exReport_def)
  have b: "tests exResults = TestsArray exTests" by (simp add: exResults_def)
  have c: "\<forall>t\<in>set exTests. flaky t \<noteq> Some True" by (simp add: exTests_def)
  have d: "isTestFlaky (exTests ! 0)" by (simp add: exTests_def isTestFlaky_def)
  from historical_flaky_count [OF h] obtain recs where
    r: "extractPreviousRunsData [exReport] = Inr recs"
    and p: "\<And>i res ts. i < length [exReport] \<and> results ([exReport] ! i) = Some res
                    \<and> tests res = TestsArray ts \<Longrightarrow>
          runFlaky (recs ! i) = int (length (filter (\<lambda>t. flaky t = Some True) ts))
        \<and> ((\<forall>t\<in>set ts. flaky t \<noteq> Some True) \<longrightarrow> runFlaky (recs ! i) = 0)"
    by blast
  from p [of 0 exResults exTests] a b c have "runFlaky (recs ! 0) = 0" by simp
  with h a b c d r show ?thesis by (auto simp: filter_empty_conv)
qed

end
